theory Spec2Isabelle
  imports Complex_Main
begin

section \<open>JavaScript values\<close>

text \<open>
  The dashboard is JavaScript: the records that come from the API are untyped JSON, and the
  code relies on truthiness (\<open>a || b\<close>), on \<open>parseInt\<close> and \<open>parseFloat\<close>, on comparisons with
  \<open>NaN\<close> and on the property order of plain objects. This section models those parts of the
  language.

  A Number is \<open>NaN\<close>, an infinity or a finite number. A finite Number is named by a
  rational, the decimal that \<open>Number::toString\<close> prints for it; the sign of zero is not
  modelled. Comparing two finite Numbers is comparing their names. The sum and the product
  of two finite Numbers are rounded by the runtime, and they are not computed here: they
  are the parameter \<open>arith\<close> of everything that adds or multiplies.
\<close>

datatype jsnum = NaN | NInf | Fin rat | PInf

datatype jsval =
    Undefined
  | Null
  | JBool bool
  | JNum jsnum
  | JStr string
  | JArr "jsval list"
  | JObj "(string \<times> jsval) list"

text \<open>ToBoolean: the falsy values are \<open>undefined\<close>, \<open>null\<close>, \<open>false\<close>, \<open>0\<close>, \<open>NaN\<close> and \<open>""\<close>.\<close>

fun truthy :: "jsval \<Rightarrow> bool" where
  "truthy Undefined = False"
| "truthy Null = False"
| "truthy (JBool b) = b"
| "truthy (JNum NaN) = False"
| "truthy (JNum (Fin x)) = (x \<noteq> 0)"
| "truthy (JNum NInf) = True"
| "truthy (JNum PInf) = True"
| "truthy (JStr s) = (s \<noteq> [])"
| "truthy (JArr xs) = True"
| "truthy (JObj kvs) = True"

text \<open>\<open>a || b\<close> on values: the left operand when it is truthy, the right one otherwise.\<close>

definition js_or :: "jsval \<Rightarrow> jsval \<Rightarrow> jsval" where
  "js_or a b = (if truthy a then a else b)"

text \<open>\<open>x || 0\<close> on a Number: \<open>0\<close> and \<open>NaN\<close> are falsy.\<close>

definition num_or :: "jsnum \<Rightarrow> jsnum \<Rightarrow> jsnum" where
  "num_or a b = (if truthy (JNum a) then a else b)"

text \<open>The relational operators on Numbers; every comparison with \<open>NaN\<close> is false.\<close>

fun js_lt :: "jsnum \<Rightarrow> jsnum \<Rightarrow> bool" where
  "js_lt NaN y = False"
| "js_lt x NaN = False"
| "js_lt PInf y = False"
| "js_lt x NInf = False"
| "js_lt NInf y = True"
| "js_lt x PInf = True"
| "js_lt (Fin a) (Fin b) = (a < b)"

definition js_gt :: "jsnum \<Rightarrow> jsnum \<Rightarrow> bool" where
  "js_gt x y = js_lt y x"

definition js_ge :: "jsnum \<Rightarrow> jsnum \<Rightarrow> bool" where
  "js_ge x y = (x \<noteq> NaN \<and> y \<noteq> NaN \<and> \<not> js_lt x y)"

definition js_le :: "jsnum \<Rightarrow> jsnum \<Rightarrow> bool" where
  "js_le x y = (x \<noteq> NaN \<and> y \<noteq> NaN \<and> \<not> js_lt y x)"

text \<open>
  The floating-point operations of the runtime on two finite Numbers: \<open>fadd ar a b\<close> is the
  Number \<open>a + b\<close> of JavaScript and \<open>fmul ar a b\<close> the Number \<open>a * b\<close>, each the nearest
  Number to the exact result, or an infinity on overflow.
\<close>

record arith =
  fadd :: "rat \<Rightarrow> rat \<Rightarrow> jsnum"
  fmul :: "rat \<Rightarrow> rat \<Rightarrow> jsnum"

text \<open>
  Addition, negation, subtraction and multiplication of Numbers. The cases with \<open>NaN\<close> or an
  infinity are those of the standard; \<open>a - b\<close> is \<open>a + (- b)\<close>, which is how IEEE arithmetic
  defines it.
\<close>

fun js_add :: "arith \<Rightarrow> jsnum \<Rightarrow> jsnum \<Rightarrow> jsnum" where
  "js_add ar NaN y = NaN"
| "js_add ar x NaN = NaN"
| "js_add ar PInf NInf = NaN"
| "js_add ar NInf PInf = NaN"
| "js_add ar PInf y = PInf"
| "js_add ar x PInf = PInf"
| "js_add ar NInf y = NInf"
| "js_add ar x NInf = NInf"
| "js_add ar (Fin a) (Fin b) = fadd ar a b"

fun js_neg :: "jsnum \<Rightarrow> jsnum" where
  "js_neg NaN = NaN"
| "js_neg NInf = PInf"
| "js_neg PInf = NInf"
| "js_neg (Fin a) = Fin (- a)"

definition js_sub :: "arith \<Rightarrow> jsnum \<Rightarrow> jsnum \<Rightarrow> jsnum" where
  "js_sub ar x y = js_add ar x (js_neg y)"

fun js_mul :: "arith \<Rightarrow> jsnum \<Rightarrow> jsnum \<Rightarrow> jsnum" where
  "js_mul ar NaN y = NaN"
| "js_mul ar x NaN = NaN"
| "js_mul ar (Fin a) (Fin b) = fmul ar a b"
| "js_mul ar (Fin a) PInf = (if a = 0 then NaN else if 0 < a then PInf else NInf)"
| "js_mul ar (Fin a) NInf = (if a = 0 then NaN else if 0 < a then NInf else PInf)"
| "js_mul ar PInf (Fin b) = (if b = 0 then NaN else if 0 < b then PInf else NInf)"
| "js_mul ar NInf (Fin b) = (if b = 0 then NaN else if 0 < b then NInf else PInf)"
| "js_mul ar PInf PInf = PInf"
| "js_mul ar NInf NInf = PInf"
| "js_mul ar PInf NInf = NInf"
| "js_mul ar NInf PInf = NInf"

text \<open>
  The arithmetic of the examples. Where the two operands and the exact result are
  integers of magnitude at most \<open>2^53\<close>, the result of the runtime is the exact one; the
  examples of this development add and multiply such numbers only, and \<open>exact\<close> is the
  arithmetic they are computed with.
\<close>

definition exact :: arith where
  "exact = \<lparr> fadd = (\<lambda>a b. Fin (a + b)), fmul = (\<lambda>a b. Fin (a * b)) \<rparr>"

text \<open>
  The Number for a real number, as the conversion of a numeral gives it: an infinity from
  \<open>2^1024 - 2^970\<close> on, where the nearest double would be beyond the largest, and zero up to
  \<open>2^-1075\<close>, half the smallest. Between the two the Number is named by the real itself, which
  is its own name when it is a decimal of at most 15 significant digits.
\<close>

definition to_number :: "rat \<Rightarrow> jsnum" where
  "to_number q =
     (if 2 ^ 1024 - 2 ^ 970 \<le> \<bar>q\<bar> then (if q < 0 then NInf else PInf)
      else if \<bar>q\<bar> \<le> 1 / 2 ^ 1075 then Fin 0
      else Fin q)"

text \<open>
  The errors that the code throws: the \<open>TypeError\<close> of reading a property of \<open>null\<close> or
  \<open>undefined\<close> and of converting to a string an object that has no usable \<open>toString\<close>,
  a rejected \<open>fetch\<close>, a body that \<open>res.json()\<close> cannot parse,
  \<open>new Error(`Login failed: ${res.status}`)\<close> and \<open>new Error(`API Error: ${res.status}`)\<close>.
\<close>

datatype error = TypeError | NetworkError | SyntaxError | LoginFailed nat | ApiError nat

text \<open>Sequencing: the first error thrown ends the computation.\<close>

definition bind_e :: "error + 'a \<Rightarrow> ('a \<Rightarrow> error + 'b) \<Rightarrow> error + 'b" where
  "bind_e m f = (case m of Inl err \<Rightarrow> Inl err | Inr x \<Rightarrow> f x)"

text \<open>
  \<open>Array.prototype.includes\<close> compares with SameValueZero: on primitives that is equality
  of the values, with \<open>NaN\<close> equal to itself. Arrays and objects are compared by identity in
  JavaScript; here they are values, and two of them are the same when they are equal.
\<close>

definition js_includes :: "jsval list \<Rightarrow> jsval \<Rightarrow> bool" where
  "js_includes xs v = (v \<in> set xs)"

section \<open>Strings and Numbers\<close>

text \<open>
  A string is a list of 8-bit characters, so the code points of a JavaScript string above
  255 are outside the model. The white space that \<open>parseInt\<close> and \<open>parseFloat\<close> skip at the
  start is TAB, LF, VT, FF, CR, SP and NBSP (the other white-space code points are above
  255).
\<close>

definition is_ws :: "char \<Rightarrow> bool" where
  "is_ws c = ((of_char c :: nat) \<in> {9, 10, 11, 12, 13, 32, 160})"

definition trim_start :: "string \<Rightarrow> string" where
  "trim_start s = dropWhile is_ws s"

definition is_digit :: "char \<Rightarrow> bool" where
  "is_digit c = (48 \<le> (of_char c :: nat) \<and> (of_char c :: nat) \<le> 57)"

definition is_hex_digit :: "char \<Rightarrow> bool" where
  "is_hex_digit c =
     (is_digit c \<or> (65 \<le> (of_char c :: nat) \<and> (of_char c :: nat) \<le> 70)
                 \<or> (97 \<le> (of_char c :: nat) \<and> (of_char c :: nat) \<le> 102))"

text \<open>The value of a digit: \<open>0\<close> to \<open>9\<close>, \<open>A\<close> to \<open>F\<close> and \<open>a\<close> to \<open>f\<close>.\<close>

definition digit_val :: "char \<Rightarrow> nat" where
  "digit_val c =
     (let n = (of_char c :: nat) in
      if n \<le> 57 then n - 48 else if n \<le> 70 then n - 55 else n - 87)"

text \<open>The value of a string of digits in a radix.\<close>

definition digits_val :: "nat \<Rightarrow> string \<Rightarrow> nat" where
  "digits_val radix z = foldl (\<lambda>acc c. acc * radix + digit_val c) 0 z"

definition pow10 :: "int \<Rightarrow> rat" where
  "pow10 e = (if 0 \<le> e then 10 ^ nat e else 1 / 10 ^ nat (- e))"

text \<open>
  \<open>parseInt(string)\<close> on a string, with no radix given: skip white space, read a sign, read
  \<open>0x\<close> or \<open>0X\<close> as the mark of radix 16, and take the digits up to the first character
  that is not one. No digit at all gives \<open>NaN\<close>.
\<close>

definition parseInt_str :: "string \<Rightarrow> jsnum" where
  "parseInt_str inputString =
     (let S = trim_start inputString;
          sign = (case S of c # r \<Rightarrow> if c = CHR ''-'' then (- 1 :: int) else 1 | [] \<Rightarrow> 1);
          S1 = (case S of c # r \<Rightarrow> if c = CHR ''-'' \<or> c = CHR ''+'' then r else S | [] \<Rightarrow> S);
          hex = (case S1 of
                   c # d # r \<Rightarrow> c = CHR ''0'' \<and> (d = CHR ''x'' \<or> d = CHR ''X'')
                 | _ \<Rightarrow> False);
          R = (if hex then 16 else 10);
          S2 = (if hex then drop 2 S1 else S1);
          Z = takeWhile (if hex then is_hex_digit else is_digit) S2
      in if Z = [] then NaN else to_number (of_int (sign * int (digits_val R Z))))"

text \<open>
  \<open>parseFloat(string)\<close> on a string: skip white space and take the longest prefix that is a
  decimal literal: a sign, then \<open>Infinity\<close> or digits with an optional fraction, then an
  exponent when digits follow the \<open>e\<close>. No such prefix gives \<open>NaN\<close>.
\<close>

definition exponent_of :: "string \<Rightarrow> int" where
  "exponent_of r =
     (case r of
        [] \<Rightarrow> 0
      | c # t \<Rightarrow>
          if c = CHR ''e'' \<or> c = CHR ''E'' then
            (let neg = (case t of d # u \<Rightarrow> d = CHR ''-'' | [] \<Rightarrow> False);
                 t1 = (case t of d # u \<Rightarrow> if d = CHR ''-'' \<or> d = CHR ''+'' then u else t
                       | [] \<Rightarrow> t);
                 E = takeWhile is_digit t1
             in if E = [] then 0
                else if neg then - int (digits_val 10 E) else int (digits_val 10 E))
          else 0)"

definition parseFloat_str :: "string \<Rightarrow> jsnum" where
  "parseFloat_str inputString =
     (let S = trim_start inputString;
          neg = (case S of c # r \<Rightarrow> c = CHR ''-'' | [] \<Rightarrow> False);
          S1 = (case S of c # r \<Rightarrow> if c = CHR ''-'' \<or> c = CHR ''+'' then r else S | [] \<Rightarrow> S)
      in if take 8 S1 = ''Infinity'' then (if neg then NInf else PInf)
         else
           (let I = takeWhile is_digit S1;
                r1 = dropWhile is_digit S1;
                dot = (case r1 of c # t \<Rightarrow> c = CHR ''.'' | [] \<Rightarrow> False);
                F = (if dot then takeWhile is_digit (tl r1) else []);
                r2 = (if dot then dropWhile is_digit (tl r1) else r1)
            in if I = [] \<and> F = [] then NaN
               else
                 (let v = of_nat (digits_val 10 (I @ F)) * pow10 (exponent_of r2 - int (length F))
                  in to_number (if neg then - v else v))))"

text \<open>
  \<open>Number::toString\<close>. The decimal digits of a natural number, without leading zeros:
\<close>

fun dec :: "nat \<Rightarrow> string" where
  "dec n = (if n < 10 then [char_of (48 + n)] else dec (n div 10) @ [char_of (48 + n mod 10)])"

declare dec.simps [simp del]

text \<open>
  \<open>scale10 fuel x j\<close> multiplies \<open>x\<close> by ten until it is an integer \<open>M\<close> and counts the steps,
  so that \<open>x = M / 10 ^ j\<close> when it started at \<open>j = 0\<close>. The finite Numbers of a program
  are decimal fractions, and the denominator of one is fuel enough; for another rational the
  digits are cut off when the fuel ends.
\<close>

fun scale10 :: "nat \<Rightarrow> rat \<Rightarrow> nat \<Rightarrow> nat \<times> nat" where
  "scale10 0 x j = (nat \<lfloor>x\<rfloor>, j)"
| "scale10 (Suc fuel) x j =
     (if x = of_int \<lfloor>x\<rfloor> then (nat \<lfloor>x\<rfloor>, j) else scale10 fuel (x * 10) (Suc j))"

definition strip_zeros :: "string \<Rightarrow> string" where
  "strip_zeros ds = rev (dropWhile (\<lambda>c. c = CHR ''0'') (rev ds))"

text \<open>
  The layout of the digits \<open>s\<close> (\<open>k\<close> of them) of a number \<open>0.s * 10 ^ n\<close>, as the standard
  says: plain digits when \<open>-5 \<le> n \<le> 21\<close>, with an exponent otherwise.
\<close>

definition layout :: "string \<Rightarrow> int \<Rightarrow> string" where
  "layout s n =
     (let k = int (length s)
      in if - 5 \<le> n \<and> n \<le> 21 then
           (if k \<le> n then s @ replicate (nat (n - k)) (CHR ''0'')
            else if 0 < n then take (nat n) s @ ''.'' @ drop (nat n) s
            else ''0.'' @ replicate (nat (- n)) (CHR ''0'') @ s)
         else
           (let e = n - 1;
                ex = (if 0 < e then ''+'' else ''-'') @ dec (nat (abs e))
            in if k = 1 then s @ ''e'' @ ex
               else take 1 s @ ''.'' @ drop 1 s @ ''e'' @ ex))"

text \<open>
  For \<open>x > 0\<close>: with \<open>x = M / 10 ^ j\<close>, the digits \<open>s\<close> are those of \<open>M\<close> without the
  zeros at the end (as few digits as possible), and \<open>n\<close> is the number of digits of \<open>M\<close>
  less \<open>j\<close>.
\<close>

definition pos_to_string :: "rat \<Rightarrow> string" where
  "pos_to_string x =
     (let (M, j) = scale10 (nat (snd (quotient_of x))) x 0;
          ds = dec M
      in layout (strip_zeros ds) (int (length ds) - int j))"

fun num_to_string :: "jsnum \<Rightarrow> string" where
  "num_to_string NaN = ''NaN''"
| "num_to_string PInf = ''Infinity''"
| "num_to_string NInf = ''-Infinity''"
| "num_to_string (Fin x) =
     (if x = 0 then ''0'' else if x < 0 then ''-'' @ pos_to_string (- x) else pos_to_string x)"

text \<open>
  ToString on a value. An array is its elements joined with commas, \<open>undefined\<close> and \<open>null\<close>
  elements giving the empty string; a plain object is \<open>[object Object]\<close>, which is what the
  \<open>toString\<close> it inherits from \<open>Object.prototype\<close> returns.

  The conversion throws a \<open>TypeError\<close> for an object that has a property \<open>toString\<close> of
  its own: the values here are JSON, so the property is not a function, and then neither
  it nor \<open>valueOf\<close> (its own, not a function either, or the inherited one, which returns the
  object) yields a primitive. An array converts its elements, so it throws when one of
  them does. \<open>throws v\<close> says that the conversion of \<open>v\<close> throws, and \<open>string_of v\<close> is the
  string when it does not.
\<close>

fun join_comma :: "string list \<Rightarrow> string" where
  "join_comma [] = []"
| "join_comma [s] = s"
| "join_comma (s # t # ss) = s @ '','' @ join_comma (t # ss)"

fun throws :: "jsval \<Rightarrow> bool" where
  "throws (JObj kvs) = (''toString'' \<in> fst ` set kvs)"
| "throws (JArr xs) = (\<exists>x \<in> set xs. throws x)"
| "throws v = False"

fun string_of :: "jsval \<Rightarrow> string" where
  "string_of Undefined = ''undefined''"
| "string_of Null = ''null''"
| "string_of (JBool b) = (if b then ''true'' else ''false'')"
| "string_of (JNum x) = num_to_string x"
| "string_of (JStr s) = s"
| "string_of (JArr xs) =
     join_comma (map (\<lambda>x. if x = Undefined \<or> x = Null then [] else string_of x) xs)"
| "string_of (JObj kvs) = ''[object Object]''"

definition to_string :: "jsval \<Rightarrow> error + string" where
  "to_string v = (if throws v then Inl TypeError else Inr (string_of v))"

text \<open>
  \<open>parseInt\<close> and \<open>parseFloat\<close> convert their argument to a string first, and throw what the
  conversion throws.
\<close>

definition parseInt :: "jsval \<Rightarrow> error + jsnum" where
  "parseInt v = bind_e (to_string v) (\<lambda>s. Inr (parseInt_str s))"

definition parseFloat :: "jsval \<Rightarrow> error + jsnum" where
  "parseFloat v = bind_e (to_string v) (\<lambda>s. Inr (parseFloat_str s))"

section \<open>The session manager\<close>

text \<open>
  The fields of \<open>GeoBrainApiService\<close> that hold the credential. The constructor sets
  \<open>token = null\<close> and \<open>tokenExpiresAt = 0\<close>.
\<close>

record credential =
  token :: jsval
  tokenExpiresAt :: jsnum

definition initial_credential :: credential where
  "initial_credential = \<lparr> token = Null, tokenExpiresAt = Fin 0 \<rparr>"

text \<open>
  \<open>isTokenExpired\<close>; \<open>now\<close> is the value of \<open>Date.now()\<close>, an integral number of
  milliseconds.
\<close>

definition isTokenExpired :: "arith \<Rightarrow> credential \<Rightarrow> int \<Rightarrow> bool" where
  "isTokenExpired ar c now =
     (if \<not> truthy (token c) then True
      else js_ge (Fin (of_int now)) (js_sub ar (tokenExpiresAt c) (Fin 60000)))"

text \<open>
  \<open>parseTokenExpiry\<close>. Splitting the token, \<open>atob\<close> and \<open>JSON.parse\<close> are the runtime's; the
  parameter \<open>jwt_exp\<close> stands for them: \<open>jwt_exp t\<close> is \<open>None\<close> when decoding \<open>t\<close> throws and
  otherwise the Number that \<open>payload.exp\<close> is in the multiplication (\<open>NaN\<close> when the payload
  has no numeric \<open>exp\<close>). The fallback is \<open>Date.now() + 50 * 60 * 1000\<close>, a sum of two
  integers that is far below \<open>2^53\<close> for every time that \<open>Date.now()\<close> can give, and so exact.
\<close>

definition parseTokenExpiry :: "arith \<Rightarrow> (jsval \<Rightarrow> jsnum option) \<Rightarrow> int \<Rightarrow> jsval \<Rightarrow> jsnum" where
  "parseTokenExpiry ar jwt_exp now t =
     (case jwt_exp t of
        Some e \<Rightarrow> js_mul ar e (Fin 1000)
      | None \<Rightarrow> Fin (of_int (now + 50 * 60 * 1000)))"

section \<open>The API service as one flow of control\<close>

text \<open>The errors of the service are those of \<open>error\<close> above.\<close>

text \<open>
  What \<open>await fetch(...)\<close> gives: a rejection, or a response with its status and the value
  of \<open>res.json()\<close> (\<open>None\<close> when the body is not JSON). \<open>res.ok\<close> is a status from 200 to
  299.
\<close>

datatype 'a fetched = Rejected | Response nat "'a option"

definition ok :: "nat \<Rightarrow> bool" where
  "ok st = (200 \<le> st \<and> st \<le> 299)"

text \<open>The body of a login response: the values of \<open>data.token\<close> and \<open>data.access_token\<close>.\<close>

record login_body =
  token_field :: jsval
  access_token_field :: jsval

text \<open>
  The body of a page response. \<open>data\<close> is \<open>None\<close> when \<open>response.data\<close> is missing or
  \<open>null\<close>, and the array otherwise; \<open>meta\<close> is \<open>None\<close> when \<open>response.meta\<close> is missing or
  \<open>null\<close>. \<open>last_page\<close> is the Number that \<open>page < response.meta.last_page\<close> compares
  with, \<open>NaN\<close> when the field is missing.
\<close>

record meta =
  total :: jsval
  last_page :: jsnum

record page_body =
  data :: "jsval list option"
  meta :: "meta option"

text \<open>
  The world outside one flow of control, as the sequence of what it answers: the \<open>k\<close>-th
  login call, the \<open>k\<close>-th page call and the \<open>k\<close>-th reading of \<open>Date.now()\<close>, the
  decoding of a token (see \<open>parseTokenExpiry\<close>), and the arithmetic of the runtime.
\<close>

record env =
  num :: arith
  jwt_exp :: "jsval \<Rightarrow> jsnum option"
  clock :: "nat \<Rightarrow> int"
  login_res :: "nat \<Rightarrow> login_body fetched"
  page_res :: "nat \<Rightarrow> page_body fetched"

text \<open>
  The state of the service with the number of login calls, page calls and clock readings
  made so far (\<open>parseTokenExpiry\<close> reads the clock only when the token does not
  decode, \<open>isTokenExpired\<close> only when there is a token). With one flow of control \<open>refreshPromise\<close> is \<open>null\<close> whenever \<open>login\<close> is
  entered, so \<open>login\<close> always makes the network call here; the \<open>finally\<close> block leaves it
  \<open>null\<close> again.
\<close>

record service = credential +
  logins :: nat
  fetches :: nat
  ticks :: nat

definition initial_service :: service where
  "initial_service =
     \<lparr> token = Null, tokenExpiresAt = Fin 0, logins = 0, fetches = 0, ticks = 0 \<rparr>"

definition login :: "env \<Rightarrow> service \<Rightarrow> (error + jsval) \<times> service" where
  "login e w =
     (let w1 = w\<lparr>logins := logins w + 1\<rparr> in
      case login_res e (logins w) of
        Rejected \<Rightarrow> (Inl NetworkError, w1)
      | Response st body \<Rightarrow>
          if \<not> ok st then (Inl (LoginFailed st), w1)
          else
            (case body of
               None \<Rightarrow> (Inl SyntaxError, w1)
             | Some d \<Rightarrow>
                 (let t = js_or (token_field d) (access_token_field d);
                      w2 = w1\<lparr>token := t,
                              tokenExpiresAt :=
                                parseTokenExpiry (num e) (jwt_exp e) (clock e (ticks w1)) t,
                              ticks := (if jwt_exp e t = None then ticks w1 + 1
                                        else ticks w1)\<rparr>
                  in (Inr t, w2))))"

definition ensureValidToken :: "env \<Rightarrow> service \<Rightarrow> (error + jsval) \<times> service" where
  "ensureValidToken e w =
     (let expired = (if \<not> truthy (token w) then True
                     else isTokenExpired (num e) (credential.truncate w) (clock e (ticks w)));
          w1 = (if \<not> truthy (token w) then w else w\<lparr>ticks := ticks w + 1\<rparr>)
      in if expired then
           (case login e w1 of
              (Inl err, w2) \<Rightarrow> (Inl err, w2)
            | (Inr t, w2) \<Rightarrow> (Inr (token w2), w2))
         else (Inr (token w1), w1))"

text \<open>
  \<open>request(endpoint, options, retryCount)\<close>. The endpoint of a page is its number.
\<close>

function request :: "env \<Rightarrow> service \<Rightarrow> nat \<Rightarrow> nat \<Rightarrow> (error + page_body) \<times> service" where
  "request e w endpoint retryCount =
     (case ensureValidToken e w of
        (Inl err, w1) \<Rightarrow> (Inl err, w1)
      | (Inr t, w1) \<Rightarrow>
          (let w2 = w1\<lparr>fetches := fetches w1 + 1\<rparr> in
           case page_res e (fetches w1) of
             Rejected \<Rightarrow> (Inl NetworkError, w2)
           | Response st body \<Rightarrow>
               if st = 401 \<and> retryCount < 2 then
                 (case login e (w2\<lparr>token := Null\<rparr>) of
                    (Inl err, w3) \<Rightarrow> (Inl err, w3)
                  | (Inr t', w3) \<Rightarrow> request e w3 endpoint (retryCount + 1))
               else if \<not> ok st then (Inl (ApiError st), w2)
               else
                 (case body of
                    None \<Rightarrow> (Inl SyntaxError, w2)
                  | Some r \<Rightarrow> (Inr r, w2))))"
  by pat_completeness auto
termination
  by (relation "measure (\<lambda>(e, w, endpoint, retryCount). 2 - retryCount)") auto

declare request.simps [simp del]


text \<open>
  \<open>fetchAllEmpreendimentos\<close>. The state of the loop is the service, \<open>allData\<close>, \<open>page\<close> and
  the progress reports made so far (\<open>onProgress\<close> is called with \<open>loaded\<close>, \<open>total\<close> and
  \<open>page\<close>). One turn of \<open>while (true)\<close> either leaves the loop, by \<open>break\<close> or by an error
  of \<open>request\<close>, or goes on with the next page.
\<close>

record progress =
  loaded :: nat
  total_p :: jsval
  page_p :: nat

record loop_state =
  svc :: service
  allData :: "jsval list"
  page :: nat
  reports :: "progress list"

datatype turn = Stop "(error + jsval list) \<times> loop_state" | Continue loop_state

definition perPage :: nat where
  "perPage = 100"

definition fetchAll_turn :: "env \<Rightarrow> loop_state \<Rightarrow> turn" where
  "fetchAll_turn e s =
     (case request e (svc s) (page s) 0 of
        (Inl err, w) \<Rightarrow> Stop (Inl err, s\<lparr>svc := w\<rparr>)
      | (Inr response, w) \<Rightarrow>
          (case data response of
             None \<Rightarrow> Stop (Inr (allData s), s\<lparr>svc := w\<rparr>)
           | Some d \<Rightarrow>
               if length d = 0 then Stop (Inr (allData s), s\<lparr>svc := w\<rparr>)
               else
                 (let all' = allData s @ d;
                      report = \<lparr> loaded = length all',
                                 total_p = js_or (case meta response of
                                                    None \<Rightarrow> Undefined
                                                  | Some m \<Rightarrow> total m)
                                                 (JNum (Fin (of_nat (length all')))),
                                 page_p = page s \<rparr>;
                      s' = s\<lparr>svc := w, allData := all', reports := reports s @ [report]\<rparr>;
                      hasMore = (case meta response of
                                   Some m \<Rightarrow> js_lt (Fin (of_nat (page s))) (last_page m)
                                 | None \<Rightarrow> length d = perPage)
                  in if \<not> hasMore then Stop (Inr all', s')
                     else Continue (s'\<lparr>page := page s + 1\<rparr>))))"

partial_function (option) fetchAll_loop :: "env \<Rightarrow> loop_state \<Rightarrow> ((error + jsval list) \<times> loop_state) option" where
  "fetchAll_loop e s =
     (case fetchAll_turn e s of
        Stop r \<Rightarrow> Some r
      | Continue s' \<Rightarrow> fetchAll_loop e s')"

definition fetchAllEmpreendimentos :: "env \<Rightarrow> service \<Rightarrow> ((error + jsval list) \<times> loop_state) option" where
  "fetchAllEmpreendimentos e w =
     fetchAll_loop e \<lparr> svc = w, allData = [], page = 1, reports = [] \<rparr>"

text \<open>
  The loop with a bound on the number of turns, to state when \<open>fetchAll_loop\<close> returns:
  \<open>fetchAll_within e n s\<close> is the turn that ends the loop, if one of the first \<open>n + 1\<close>
  turns does, and the state after \<open>n + 1\<close> turns otherwise.
\<close>

fun fetchAll_within :: "env \<Rightarrow> nat \<Rightarrow> loop_state \<Rightarrow> turn" where
  "fetchAll_within e 0 s = fetchAll_turn e s"
| "fetchAll_within e (Suc n) s =
     (case fetchAll_turn e s of
        Stop r \<Rightarrow> Stop r
      | Continue s' \<Rightarrow> fetchAll_within e n s')"

text \<open>
  A server for the examples that never lets the retrieval end: every login succeeds with
  a token that does not decode, and every page has 100 records and no \<open>meta\<close>.
\<close>

definition full_page :: page_body where
  "full_page = \<lparr> data = Some (replicate 100 (JObj [])), meta = None \<rparr>"

definition env_endless :: env where
  "env_endless = \<lparr>
     num = exact,
     jwt_exp = (\<lambda>t. None),
     clock = (\<lambda>k. 0),
     login_res = (\<lambda>k. Response 200 (Some \<lparr> token_field = JStr ''t'', access_token_field = Undefined \<rparr>)),
     page_res = (\<lambda>k. Response 200 (Some full_page)) \<rparr>"

text \<open>
  A server for the examples with one full page and nothing after it: the first page call
  gives 100 records and no \<open>meta\<close>, every later one an empty list.
\<close>

definition env_two_pages :: env where
  "env_two_pages = \<lparr>
     num = exact,
     jwt_exp = (\<lambda>t. None),
     clock = (\<lambda>k. 0),
     login_res = (\<lambda>k. Response 200 (Some \<lparr> token_field = JStr ''t'', access_token_field = Undefined \<rparr>)),
     page_res = (\<lambda>k. if k = 0 then Response 200 (Some full_page)
                        else Response 200 (Some \<lparr> data = Some [], meta = None \<rparr>)) \<rparr>"



section \<open>Normalized records and the filter\<close>

text \<open>
  The objects \<open>transformData\<close> builds. The fields filled with \<open>a || b || default\<close> hold
  whatever value the API sent; the fields filled through \<open>parseInt\<close> or \<open>parseFloat\<close> hold
  Numbers. The field \<open>id\<close> is \<open>id_f\<close> here.
\<close>

record normalized =
  id_f :: jsval
  nome :: jsval
  cidade :: jsval
  estado :: jsval
  bairro :: jsval
  incorporadora :: jsval
  tipo :: jsval
  padrao :: jsval
  tipoImovel :: jsval
  quartos :: jsnum
  vgvTotal :: jsnum
  vgvVendido :: jsnum
  unidadesVendidas :: jsnum
  totalUnidades :: jsnum
  preco :: jsnum
  m2 :: jsnum
  valorM2 :: jsnum
  status :: jsval
  anoLancamento :: jsnum
  dataAtualizacao :: jsval

text \<open>
  The filter state. The selections \<open>filters.status\<close> and \<open>filters.quartos\<close> are
  \<open>status_sel\<close> and \<open>quartos_sel\<close>, since the record fields have those names already.
  A range is the two-element array \<open>[min, max]\<close>.
\<close>

record filters =
  estados :: "jsval list"
  cidades :: "jsval list"
  bairros :: "jsval list"
  padroes :: "jsval list"
  status_sel :: "jsval list"
  tipos :: "jsval list"
  tiposImovel :: "jsval list"
  quartos_sel :: "jsval list"
  anosLancamento :: "jsval list"
  incorporadoras :: "jsval list"
  m2Range :: "jsnum \<times> jsnum"
  ticketRange :: "jsnum \<times> jsnum"
  valorM2Range :: "jsnum \<times> jsnum"

definition DEFAULT_FILTERS :: filters where
  "DEFAULT_FILTERS = \<lparr>
     estados = [], cidades = [], bairros = [], padroes = [], status_sel = [], tipos = [],
     tiposImovel = [], quartos_sel = [], anosLancamento = [], incorporadoras = [],
     m2Range = (Fin 0, Fin 2000), ticketRange = (Fin 0, Fin 100000000),
     valorM2Range = (Fin 0, Fin 100000) \<rparr>"

text \<open>
  The callback of \<open>rawData.filter\<close> in \<open>filteredData\<close>, one line of the source per line.
  \<open>xs.length && !xs.includes(v)\<close> is true when the list is non-empty and lacks \<open>v\<close>.
\<close>

definition matches :: "filters \<Rightarrow> normalized \<Rightarrow> bool" where
  "matches f i =
     (if estados f \<noteq> [] \<and> \<not> js_includes (estados f) (estado i) then False
      else if cidades f \<noteq> [] \<and> \<not> js_includes (cidades f) (cidade i) then False
      else if bairros f \<noteq> [] \<and> \<not> js_includes (bairros f) (bairro i) then False
      else if padroes f \<noteq> [] \<and> \<not> js_includes (padroes f) (padrao i) then False
      else if status_sel f \<noteq> [] \<and> \<not> js_includes (status_sel f) (status i) then False
      else if tipos f \<noteq> [] \<and> \<not> js_includes (tipos f) (tipo i) then False
      else if tiposImovel f \<noteq> [] \<and> \<not> js_includes (tiposImovel f) (tipoImovel i) then False
      else if quartos_sel f \<noteq> [] \<and> \<not> js_includes (quartos_sel f) (JNum (quartos i)) then False
      else if anosLancamento f \<noteq> [] \<and> \<not> js_includes (anosLancamento f) (JNum (anoLancamento i))
        then False
      else if incorporadoras f \<noteq> [] \<and> \<not> js_includes (incorporadoras f) (incorporadora i)
        then False
      else if js_lt (m2 i) (fst (m2Range f)) \<or> js_gt (m2 i) (snd (m2Range f)) then False
      else if js_lt (preco i) (fst (ticketRange f)) \<or> js_gt (preco i) (snd (ticketRange f))
        then False
      else if js_lt (valorM2 i) (fst (valorM2Range f)) \<or> js_gt (valorM2 i) (snd (valorM2Range f))
        then False
      else True)"

definition filteredData :: "filters \<Rightarrow> normalized list \<Rightarrow> normalized list" where
  "filteredData f rawData = filter (matches f) rawData"

text \<open>
  The filter as the specification words it, to compare with \<open>matches\<close>: a categorical
  selection that is empty or holds the value of the record, and a number within
  \<open>[min, max]\<close>, that is \<open>min \<le> v\<close> and \<open>v \<le> max\<close>.
\<close>

definition in_range :: "jsnum \<Rightarrow> jsnum \<times> jsnum \<Rightarrow> bool" where
  "in_range v r = (js_le (fst r) v \<and> js_le v (snd r))"

definition categorical :: "filters \<Rightarrow> normalized \<Rightarrow> bool" where
  "categorical f i =
     ((estados f = [] \<or> js_includes (estados f) (estado i))
    \<and> (cidades f = [] \<or> js_includes (cidades f) (cidade i))
    \<and> (bairros f = [] \<or> js_includes (bairros f) (bairro i))
    \<and> (padroes f = [] \<or> js_includes (padroes f) (padrao i))
    \<and> (status_sel f = [] \<or> js_includes (status_sel f) (status i))
    \<and> (tipos f = [] \<or> js_includes (tipos f) (tipo i))
    \<and> (tiposImovel f = [] \<or> js_includes (tiposImovel f) (tipoImovel i))
    \<and> (quartos_sel f = [] \<or> js_includes (quartos_sel f) (JNum (quartos i)))
    \<and> (anosLancamento f = [] \<or> js_includes (anosLancamento f) (JNum (anoLancamento i)))
    \<and> (incorporadoras f = [] \<or> js_includes (incorporadoras f) (incorporadora i)))"

definition matches_spec :: "filters \<Rightarrow> normalized \<Rightarrow> bool" where
  "matches_spec f i =
     (categorical f i \<and> in_range (m2 i) (m2Range f) \<and> in_range (preco i) (ticketRange f)
      \<and> in_range (valorM2 i) (valorM2Range f))"


section \<open>The normalizer\<close>

text \<open>
  Reading a property of a record. A property that the object does not have is
  \<open>undefined\<close>; so is each of the names \<open>transformData\<close> reads on a number, a string, a
  boolean or an array. The list of a \<open>JObj\<close> holds the properties of the object; where a
  key is there twice, the first entry is the property. Reading a property of \<open>null\<close> or
  \<open>undefined\<close> throws, which \<open>transformItem\<close> below accounts for.
\<close>

fun prop_of :: "jsval \<Rightarrow> string \<Rightarrow> jsval" where
  "prop_of (JObj kvs) k = (case map_of kvs k of Some v \<Rightarrow> v | None \<Rightarrow> Undefined)"
| "prop_of v k = Undefined"

text \<open>
  \<open>new Date().getFullYear()\<close> and \<open>new Date().toISOString()\<close> as the callback for the
  record at an index reads them.
\<close>

record date =
  getFullYear :: "nat \<Rightarrow> int"
  toISOString :: "nat \<Rightarrow> string"

text \<open>
  The callback of \<open>apiData.map\<close>; \<open>a || b || c\<close> is \<open>(a || b) || c\<close>. Reading \<open>emp.id\<close> throws when
  \<open>emp\<close> is \<open>null\<close> or \<open>undefined\<close>. The properties of the object literal are evaluated in
  their order; those built from \<open>||\<close> alone do not throw, and the calls of \<open>parseInt\<close> and
  \<open>parseFloat\<close> are sequenced here in the order of the source.
\<close>

definition transformItem :: "date \<Rightarrow> jsval \<Rightarrow> nat \<Rightarrow> error + normalized" where
  "transformItem dt emp index =
     (if emp = Undefined \<or> emp = Null then Inl TypeError
      else
        bind_e (parseInt (js_or (js_or (js_or (prop_of emp ''quartos'') (prop_of emp ''dormitorios''))
                                       (prop_of emp ''bedrooms'')) (JNum (Fin 2))))
        (\<lambda>quartos_v.
        bind_e (parseFloat (js_or (js_or (js_or (prop_of emp ''vgv_total'') (prop_of emp ''vgv''))
                                         (prop_of emp ''total_value'')) (JNum (Fin 0))))
        (\<lambda>vgvTotal_v.
        bind_e (parseFloat (js_or (js_or (prop_of emp ''vgv_vendido'') (prop_of emp ''sold_value''))
                                  (JNum (Fin 0))))
        (\<lambda>vgvVendido_v.
        bind_e (parseInt (js_or (js_or (prop_of emp ''unidades_vendidas'')
                                       (prop_of emp ''sold_units'')) (JNum (Fin 0))))
        (\<lambda>unidadesVendidas_v.
        bind_e (parseInt (js_or (js_or (js_or (prop_of emp ''total_unidades'')
                                              (prop_of emp ''unidades''))
                                       (prop_of emp ''total_units'')) (JNum (Fin 0))))
        (\<lambda>totalUnidades_v.
        bind_e (parseFloat (js_or (js_or (js_or (prop_of emp ''preco_medio'') (prop_of emp ''ticket_medio''))
                                         (prop_of emp ''average_price'')) (JNum (Fin 0))))
        (\<lambda>preco_v.
        bind_e (parseFloat (js_or (js_or (js_or (prop_of emp ''area_privativa'') (prop_of emp ''m2''))
                                         (prop_of emp ''private_area'')) (JNum (Fin 0))))
        (\<lambda>m2_v.
        bind_e (parseFloat (js_or (js_or (prop_of emp ''valor_m2'') (prop_of emp ''price_per_sqm''))
                                  (JNum (Fin 0))))
        (\<lambda>valorM2_v.
        bind_e (parseInt (js_or (js_or (js_or (prop_of emp ''ano_lancamento'') (prop_of emp ''ano''))
                                       (prop_of emp ''launch_year''))
                                (JNum (Fin (of_int (getFullYear dt index))))))
        (\<lambda>anoLancamento_v.
        Inr \<lparr>
          id_f = js_or (prop_of emp ''id'') (JNum (Fin (of_nat index))),
          nome = js_or (js_or (js_or (prop_of emp ''nome'') (prop_of emp ''empreendimento''))
                              (prop_of emp ''name'')) (JStr ''N/A''),
          cidade = js_or (js_or (prop_of emp ''cidade'') (prop_of emp ''city'')) (JStr ''N/A''),
          estado = js_or (js_or (js_or (prop_of emp ''estado'') (prop_of emp ''uf''))
                                (prop_of emp ''state'')) (JStr ''N/A''),
          bairro = js_or (js_or (prop_of emp ''bairro'') (prop_of emp ''neighborhood'')) (JStr ''N/A''),
          incorporadora = js_or (js_or (js_or (prop_of emp ''incorporadora'') (prop_of emp ''construtora''))
                                       (prop_of emp ''developer'')) (JStr ''N/A''),
          tipo = js_or (js_or (prop_of emp ''tipo'') (prop_of emp ''type'')) (JStr ''Vertical''),
          padrao = js_or (js_or (prop_of emp ''padrao'') (prop_of emp ''standard'')) (JStr ''Standard''),
          tipoImovel = js_or (js_or (js_or (prop_of emp ''tipologia'') (prop_of emp ''tipo_imovel''))
                                    (prop_of emp ''property_type'')) (JStr ''Padrao''),
          quartos = quartos_v,
          vgvTotal = vgvTotal_v,
          vgvVendido = vgvVendido_v,
          unidadesVendidas = unidadesVendidas_v,
          totalUnidades = totalUnidades_v,
          preco = preco_v,
          m2 = m2_v,
          valorM2 = valorM2_v,
          status = js_or (prop_of emp ''status'') (JStr ''Comercializacao''),
          anoLancamento = anoLancamento_v,
          dataAtualizacao = js_or (js_or (prop_of emp ''updated_at'') (prop_of emp ''data_atualizacao''))
                                  (JStr (toISOString dt index)) \<rparr>))))))))))"

text \<open>
  \<open>transformData\<close>: \<open>apiData.map\<close> calls the callback with each element and its index, in
  order; when the callback throws at an element, \<open>transformData\<close> throws that error and
  returns nothing.
\<close>

fun map_e :: "('a \<Rightarrow> error + 'b) \<Rightarrow> 'a list \<Rightarrow> error + 'b list" where
  "map_e f [] = Inr []"
| "map_e f (x # xs) = bind_e (f x) (\<lambda>y. bind_e (map_e f xs) (\<lambda>ys. Inr (y # ys)))"

definition transformData :: "date \<Rightarrow> jsval list \<Rightarrow> error + normalized list" where
  "transformData dt apiData =
     map_e (\<lambda>(index, emp). transformItem dt emp index) (enumerate 0 apiData)"

text \<open>
  A normalized record read back as a raw record: each canonical field under the first
  name of its chain in \<open>transformItem\<close>. This is not in the source; it states what
  re-normalizing a normalized record means.
\<close>

definition as_raw :: "normalized \<Rightarrow> jsval" where
  "as_raw r = JObj [
     (''id'', id_f r), (''nome'', nome r), (''cidade'', cidade r), (''estado'', estado r),
     (''bairro'', bairro r), (''incorporadora'', incorporadora r), (''tipo'', tipo r),
     (''padrao'', padrao r), (''tipologia'', tipoImovel r), (''quartos'', JNum (quartos r)),
     (''vgv_total'', JNum (vgvTotal r)), (''vgv_vendido'', JNum (vgvVendido r)),
     (''unidades_vendidas'', JNum (unidadesVendidas r)),
     (''total_unidades'', JNum (totalUnidades r)), (''preco_medio'', JNum (preco r)),
     (''area_privativa'', JNum (m2 r)), (''valor_m2'', JNum (valorM2 r)),
     (''status'', status r), (''ano_lancamento'', JNum (anoLancamento r)),
     (''updated_at'', dataAtualizacao r)]"

text \<open>
  A field has no value in a record when every name of its chain is absent (reads as
  \<open>undefined\<close>) or holds a falsy value; then the chain of \<open>||\<close> ends at its default.
\<close>

definition no_value :: "jsval \<Rightarrow> string list \<Rightarrow> bool" where
  "no_value emp ks = list_all (\<lambda>k. \<not> truthy (prop_of emp k)) ks"

definition absent :: "jsval \<Rightarrow> string list \<Rightarrow> bool" where
  "absent emp ks = list_all (\<lambda>k. prop_of emp k = Undefined) ks"

text \<open>A date for the examples: every reading falls in the year 2024.\<close>

definition date_2024 :: date where
  "date_2024 = \<lparr> getFullYear = (\<lambda>i. 2024), toISOString = (\<lambda>i. ''2024-06-01T12:00:00.000Z'') \<rparr>"

section \<open>The grouped series\<close>

text \<open>
  The series are built in a plain object \<open>g = {}\<close> whose property names are the values of
  a dimension, converted to strings. Three things of such an object matter here.
  \<^item> \<open>g\<close> inherits the properties of \<open>Object.prototype\<close>, so for one of the names below
    \<open>g[k]\<close> is a function (or, for \<open>__proto__\<close>, the prototype): \<open>!g[k]\<close> is false, no group is
    made, and the sums go to that inherited object and not to a property of \<open>g\<close>.
  \<^item> \<open>Object.values(g)\<close> lists the properties whose names are array indices first
    (the decimal numerals of \<open>0\<close> to \<open>2^32 - 2\<close>), in ascending order, and then the others in
    the order of their creation.
  \<^item> \<open>Array.prototype.sort\<close> is stable; a result of the comparison function that is \<open>NaN\<close>
    counts as \<open>0\<close>. The sort here is insertion from the right, which is the stable order
    whenever the comparison function is consistent (otherwise the order is up to the
    implementation).
  The own properties of \<open>g\<close> are an association list in the order of their creation.
\<close>

definition proto_keys :: "string list" where
  "proto_keys = [''constructor'', ''__defineGetter__'', ''__defineSetter__'', ''hasOwnProperty'',
     ''__lookupGetter__'', ''__lookupSetter__'', ''isPrototypeOf'', ''propertyIsEnumerable'',
     ''toString'', ''valueOf'', ''__proto__'', ''toLocaleString'']"

definition is_array_index :: "string \<Rightarrow> bool" where
  "is_array_index k =
     (k \<noteq> [] \<and> list_all is_digit k \<and> dec (digits_val 10 k) = k
      \<and> digits_val 10 k < 4294967295)"

definition object_values :: "(string \<times> 'g) list \<Rightarrow> 'g list" where
  "object_values g =
     map snd (sort_key (\<lambda>(k, v). digits_val 10 k) (filter (\<lambda>(k, v). is_array_index k) g)
              @ filter (\<lambda>(k, v). \<not> is_array_index k) g)"

fun insort_cmp :: "('g \<Rightarrow> 'g \<Rightarrow> jsnum) \<Rightarrow> 'g \<Rightarrow> 'g list \<Rightarrow> 'g list" where
  "insort_cmp cmp x [] = [x]"
| "insort_cmp cmp x (y # ys) =
     (if js_gt (cmp x y) (Fin 0) then y # insort_cmp cmp x ys else x # y # ys)"

definition js_sort :: "('g \<Rightarrow> 'g \<Rightarrow> jsnum) \<Rightarrow> 'g list \<Rightarrow> 'g list" where
  "js_sort cmp xs = foldr (insort_cmp cmp) xs []"

text \<open>
  One call of the \<open>forEach\<close> callback. \<open>g[k]\<close> converts the value of the dimension to a
  string, which may throw; then \<open>if (!g[k]) g[k] = init\<close> and the additions to \<open>g[k]\<close>.
  \<open>key\<close> reads the dimension, \<open>init\<close> is the new group and \<open>add\<close> the additions.
\<close>

definition update_own :: "string \<Rightarrow> ('g \<Rightarrow> 'g) \<Rightarrow> (string \<times> 'g) list \<Rightarrow> (string \<times> 'g) list" where
  "update_own k f g = map (\<lambda>(k', v). if k' = k then (k', f v) else (k', v)) g"

definition put_in_group ::
  "string \<Rightarrow> 'g \<Rightarrow> ('g \<Rightarrow> 'g) \<Rightarrow> (string \<times> 'g) list \<Rightarrow> (string \<times> 'g) list" where
  "put_in_group k new add g =
     (if k \<in> set proto_keys then g
      else update_own k add (if map_of g k = None then g @ [(k, new)] else g))"

definition group_step ::
  "(normalized \<Rightarrow> jsval) \<Rightarrow> (normalized \<Rightarrow> 'g) \<Rightarrow> (normalized \<Rightarrow> 'g \<Rightarrow> 'g)
   \<Rightarrow> (string \<times> 'g) list \<Rightarrow> normalized \<Rightarrow> error + (string \<times> 'g) list" where
  "group_step key init add g i =
     bind_e (to_string (key i)) (\<lambda>k. Inr (put_in_group k (init i) (add i) g))"

text \<open>\<open>forEach\<close> with a callback that may throw: the first error ends it.\<close>

definition forEach :: "('s \<Rightarrow> 'a \<Rightarrow> error + 's) \<Rightarrow> 's \<Rightarrow> 'a list \<Rightarrow> error + 's" where
  "forEach f s xs = foldl (\<lambda>acc x. bind_e acc (\<lambda>s'. f s' x)) (Inr s) xs"

text \<open>
  The groups of \<open>vgvPorCidade\<close> and \<open>vgvPorPadrao\<close>, \<open>{cidade, vgvTotal, vgvVendido}\<close> and
  \<open>{padrao, vgvTotal, vgvVendido}\<close> (the first field is \<open>g_label\<close> here), and those of
  \<open>vgvPorTipo\<close>, \<open>{tipo, vgvTotal}\<close>. The argument \<open>rows\<close> of the series is \<open>filteredData\<close>.
\<close>

record group =
  g_label :: jsval
  g_vgvTotal :: jsnum
  g_vgvVendido :: jsnum

record tipo_group =
  t_tipo :: jsval
  t_vgvTotal :: jsnum

definition new_group :: "jsval \<Rightarrow> group" where
  "new_group v = \<lparr> g_label = v, g_vgvTotal = Fin 0, g_vgvVendido = Fin 0 \<rparr>"

definition add_to_group :: "arith \<Rightarrow> normalized \<Rightarrow> group \<Rightarrow> group" where
  "add_to_group ar i gr =
     gr\<lparr> g_vgvTotal := js_add ar (g_vgvTotal gr) (num_or (vgvTotal i) (Fin 0)),
         g_vgvVendido := js_add ar (g_vgvVendido gr) (num_or (vgvVendido i) (Fin 0)) \<rparr>"

definition add_to_tipo :: "arith \<Rightarrow> normalized \<Rightarrow> tipo_group \<Rightarrow> tipo_group" where
  "add_to_tipo ar i gr =
     gr\<lparr> t_vgvTotal := js_add ar (t_vgvTotal gr) (num_or (vgvTotal i) (Fin 0)) \<rparr>"

definition by_total :: "arith \<Rightarrow> group \<Rightarrow> group \<Rightarrow> jsnum" where
  "by_total ar a b = js_sub ar (g_vgvTotal b) (g_vgvTotal a)"

definition groups_cidade :: "arith \<Rightarrow> normalized list \<Rightarrow> error + (string \<times> group) list" where
  "groups_cidade ar rows =
     forEach (group_step cidade (\<lambda>i. new_group (cidade i)) (add_to_group ar)) [] rows"

definition vgvPorCidade :: "arith \<Rightarrow> normalized list \<Rightarrow> error + group list" where
  "vgvPorCidade ar rows =
     bind_e (groups_cidade ar rows)
       (\<lambda>g. Inr (take 8 (js_sort (by_total ar) (object_values g))))"

definition groups_tipo :: "arith \<Rightarrow> normalized list \<Rightarrow> error + (string \<times> tipo_group) list" where
  "groups_tipo ar rows =
     forEach (group_step tipo (\<lambda>i. \<lparr> t_tipo = tipo i, t_vgvTotal = Fin 0 \<rparr>) (add_to_tipo ar))
       [] rows"

definition vgvPorTipo :: "arith \<Rightarrow> normalized list \<Rightarrow> error + tipo_group list" where
  "vgvPorTipo ar rows = bind_e (groups_tipo ar rows) (\<lambda>g. Inr (object_values g))"

definition groups_padrao :: "arith \<Rightarrow> normalized list \<Rightarrow> error + (string \<times> group) list" where
  "groups_padrao ar rows =
     forEach (group_step padrao (\<lambda>i. new_group (padrao i)) (add_to_group ar)) [] rows"

definition vgvPorPadrao :: "arith \<Rightarrow> normalized list \<Rightarrow> error + group list" where
  "vgvPorPadrao ar rows =
     bind_e (groups_padrao ar rows)
       (\<lambda>g. Inr (take 8 (js_sort (by_total ar) (object_values g))))"

text \<open>
  The series as the specification words them, to compare with the code: the keys (the
  strings of the values of the dimension) in the order in which they are first met,
  leaving out the inherited names, whose records are in no group; the records of a key;
  the sum of a field over them with \<open>x || 0\<close> for each value, added from 0 in the order of
  the records with the addition of the runtime; and the group of a key.
\<close>

definition first_seen :: "string list \<Rightarrow> string list" where
  "first_seen ks = foldl (\<lambda>acc k. if k \<in> set acc then acc else acc @ [k]) [] ks"

definition keys_seen :: "(normalized \<Rightarrow> jsval) \<Rightarrow> normalized list \<Rightarrow> string list" where
  "keys_seen key rows =
     first_seen (filter (\<lambda>k. k \<notin> set proto_keys) (map (\<lambda>i. string_of (key i)) rows))"

definition members :: "(normalized \<Rightarrow> jsval) \<Rightarrow> string \<Rightarrow> normalized list \<Rightarrow> normalized list" where
  "members key k rows = filter (\<lambda>i. string_of (key i) = k) rows"

definition sum_of :: "arith \<Rightarrow> (normalized \<Rightarrow> jsnum) \<Rightarrow> normalized list \<Rightarrow> jsnum" where
  "sum_of ar field ms = foldl (\<lambda>a i. js_add ar a (num_or (field i) (Fin 0))) (Fin 0) ms"

definition group_of :: "arith \<Rightarrow> (normalized \<Rightarrow> jsval) \<Rightarrow> normalized list \<Rightarrow> string \<Rightarrow> group" where
  "group_of ar key rows k =
     \<lparr> g_label = key (hd (members key k rows)),
       g_vgvTotal = sum_of ar vgvTotal (members key k rows),
       g_vgvVendido = sum_of ar vgvVendido (members key k rows) \<rparr>"

definition tipo_group_of :: "arith \<Rightarrow> normalized list \<Rightarrow> string \<Rightarrow> tipo_group" where
  "tipo_group_of ar rows k =
     \<lparr> t_tipo = tipo (hd (members tipo k rows)),
       t_vgvTotal = sum_of ar vgvTotal (members tipo k rows) \<rparr>"

text \<open>
  What the \<open>forEach\<close> makes of the records of one key: the new group of the first of
  them, with the additions of each in turn.
\<close>

definition built ::
  "(normalized \<Rightarrow> jsval) \<Rightarrow> (normalized \<Rightarrow> 'g) \<Rightarrow> (normalized \<Rightarrow> 'g \<Rightarrow> 'g)
   \<Rightarrow> normalized list \<Rightarrow> string \<Rightarrow> 'g" where
  "built key init add rows k =
     foldl (\<lambda>gr i. add i gr) (init (hd (members key k rows))) (members key k rows)"

text \<open>The value of a finite Number, to order the groups by.\<close>

fun fin_value :: "jsnum \<Rightarrow> rat" where
  "fin_value (Fin x) = x"
| "fin_value x = 0"

text \<open>
  A normalized record for the examples, with a city, a type and a launched value: the
  record that \<open>transformItem\<close> makes in 2024 of \<open>{cidade: c, tipo: t, vgv_total: v}\<close> at the
  index 0, for non-empty \<open>c\<close> and \<open>t\<close> and one of the values \<open>v\<close> of the examples.
\<close>

definition sample :: "string \<Rightarrow> string \<Rightarrow> rat \<Rightarrow> normalized" where
  "sample c t v = \<lparr>
     id_f = JNum (Fin 0), nome = JStr ''N/A'', cidade = JStr c, estado = JStr ''N/A'',
     bairro = JStr ''N/A'', incorporadora = JStr ''N/A'', tipo = JStr t,
     padrao = JStr ''Standard'', tipoImovel = JStr ''Padrao'', quartos = Fin 2,
     vgvTotal = Fin v, vgvVendido = Fin 0, unidadesVendidas = Fin 0, totalUnidades = Fin 0,
     preco = Fin 0, m2 = Fin 0, valorM2 = Fin 0, status = JStr ''Comercializacao'',
     anoLancamento = Fin 2024, dataAtualizacao = JStr ''2024-06-01T12:00:00.000Z'' \<rparr>"

section \<open>Concurrent callers of login\<close>

text \<open>
  JavaScript runs each piece of code between two \<open>await\<close>s to its end before anything else
  runs, so several callers of \<open>login\<close> interleave only at these events:
  \<^item> \<open>Call c\<close>: caller \<open>c\<close> calls \<open>login()\<close>. With \<open>refreshPromise\<close> set it returns that promise;
    otherwise the body of the async function starts, which sends the login request, and
    \<open>refreshPromise\<close> is set to the new promise;
  \<^item> \<open>Arrive r\<close>: \<open>await fetch(...)\<close> of the pending attempt settles, rejected (\<open>None\<close>) or with
    a response of some status; a failure throws, and the \<open>finally\<close> block runs;
  \<^item> \<open>Body b\<close>: \<open>await res.json()\<close> of the pending attempt settles, rejected (\<open>None\<close>) or with
    the body; then the token and its expiry are stored, and the \<open>finally\<close> block runs.
  A promise is the number of the login request that it stands for; \<open>holders\<close> records which
  promise each call of \<open>login\<close> returned, and \<open>outcomes\<close> how each promise settled, which is
  what everyone who awaits it observes. An event that cannot happen in a state (a response
  when nothing is pending) leaves the state as it is.
\<close>

datatype phase = AwaitFetch | AwaitJson

datatype event = Call nat | Arrive "nat option" | Body "login_body option"

record session = credential +
  refreshPromise :: "nat option"
  phase :: phase
  network_logins :: nat
  holders :: "(nat \<times> nat) list"
  outcomes :: "(nat \<times> (error + jsval)) list"

definition initial_session :: session where
  "initial_session =
     \<lparr> token = Null, tokenExpiresAt = Fin 0, refreshPromise = None, phase = AwaitFetch,
       network_logins = 0, holders = [], outcomes = [] \<rparr>"

text \<open>The promise \<open>p\<close> is rejected with an error: the \<open>finally\<close> block clears the marker.\<close>

definition rejected :: "session \<Rightarrow> nat \<Rightarrow> error \<Rightarrow> session" where
  "rejected s p err = s\<lparr> refreshPromise := None, outcomes := outcomes s @ [(p, Inl err)] \<rparr>"

definition login_step ::
  "arith \<Rightarrow> (jsval \<Rightarrow> jsnum option) \<Rightarrow> int \<Rightarrow> session \<Rightarrow> event \<Rightarrow> session" where
  "login_step ar decode now s ev =
     (case ev of
        Call c \<Rightarrow>
          (case refreshPromise s of
             Some p \<Rightarrow> s\<lparr> holders := holders s @ [(c, p)] \<rparr>
           | None \<Rightarrow>
               s\<lparr> refreshPromise := Some (network_logins s), phase := AwaitFetch,
                   network_logins := network_logins s + 1,
                   holders := holders s @ [(c, network_logins s)] \<rparr>)
      | Arrive r \<Rightarrow>
          (case refreshPromise s of
             None \<Rightarrow> s
           | Some p \<Rightarrow>
               if phase s \<noteq> AwaitFetch then s
               else (case r of
                       None \<Rightarrow> rejected s p NetworkError
                     | Some st \<Rightarrow>
                         if \<not> ok st then rejected s p (LoginFailed st)
                         else s\<lparr> phase := AwaitJson \<rparr>))
      | Body b \<Rightarrow>
          (case refreshPromise s of
             None \<Rightarrow> s
           | Some p \<Rightarrow>
               if phase s \<noteq> AwaitJson then s
               else (case b of
                       None \<Rightarrow> rejected s p SyntaxError
                     | Some d \<Rightarrow>
                         (let t = js_or (token_field d) (access_token_field d)
                          in s\<lparr> token := t, tokenExpiresAt := parseTokenExpiry ar decode now t,
                                 refreshPromise := None,
                                 outcomes := outcomes s @ [(p, Inr t)] \<rparr>))))"

text \<open>An event settles the pending attempt when it ends the body of the async function.\<close>

definition settles :: "session \<Rightarrow> event \<Rightarrow> bool" where
  "settles s ev =
     (refreshPromise s \<noteq> None \<and>
      (case ev of
         Call c \<Rightarrow> False
       | Arrive r \<Rightarrow> phase s = AwaitFetch \<and> (case r of None \<Rightarrow> True | Some st \<Rightarrow> \<not> ok st)
       | Body b \<Rightarrow> phase s = AwaitJson))"

section \<open>Numbers and truthiness\<close>

lemma falsy_cases:
  "\<not> truthy v \<longleftrightarrow> v \<in> {Undefined, Null, JBool False, JNum NaN, JNum (Fin 0), JStr ''''}"
  by (cases v rule: truthy.cases) auto

lemma js_lt_NaN_right: "js_lt x NaN = False"
  by (cases x) simp_all

lemma range_as_in_range:
  "v \<noteq> NaN \<Longrightarrow> fst r \<noteq> NaN \<Longrightarrow> snd r \<noteq> NaN \<Longrightarrow>
   (\<not> js_lt v (fst r) \<and> \<not> js_gt v (snd r)) = in_range v r"
  by (simp add: in_range_def js_le_def js_gt_def)

lemma bind_e_simps [simp]:
  "bind_e (Inl err) f = Inl err" "bind_e (Inr x) f = f x"
  by (simp_all add: bind_e_def)

lemma bind_e_Inr: "bind_e m f = Inr r \<longleftrightarrow> (\<exists>x. m = Inr x \<and> f x = Inr r)"
  by (cases m) simp_all

lemma bind_e_Inl: "bind_e m f = Inl err \<longleftrightarrow> m = Inl err \<or> (\<exists>x. m = Inr x \<and> f x = Inl err)"
  by (cases m) simp_all

lemma to_number_0 [simp]: "to_number 0 = Fin 0"
  by (simp add: to_number_def)

lemma to_number_Fin:
  assumes "1 / 10 ^ 300 \<le> \<bar>q\<bar>" "\<bar>q\<bar> \<le> 10 ^ 300"
  shows "to_number q = Fin q"
proof -
  have a: "(10 :: rat) ^ 300 < 2 ^ 1024 - 2 ^ 970" by simp
  have b: "1 / 2 ^ 1075 < 1 / (10 :: rat) ^ 300" by simp
  from a assms(2) have "\<not> 2 ^ 1024 - 2 ^ 970 \<le> \<bar>q\<bar>" by linarith
  moreover from b assms(1) have "\<not> \<bar>q\<bar> \<le> 1 / 2 ^ 1075" by linarith
  ultimately show ?thesis by (simp add: to_number_def)
qed

lemma to_number_nat: "m < 10 ^ 21 \<Longrightarrow> to_number (of_nat m) = Fin (of_nat m)"
proof (cases "m = 0")
  case True
  then show ?thesis by simp
next
  case False
  assume m: "m < 10 ^ 21"
  have "(of_nat m :: rat) < of_nat (10 ^ 21)" using m by (simp only: of_nat_less_iff)
  then have u: "\<bar>of_nat m :: rat\<bar> \<le> 10 ^ 300" by simp
  have "(1 :: rat) \<le> of_nat m" using False by simp
  then have l: "1 / 10 ^ 300 \<le> \<bar>of_nat m :: rat\<bar>" by simp
  show ?thesis by (rule to_number_Fin[OF l u])
qed

section \<open>Printing and parsing integers\<close>

lemma of_char_digit: "d < 10 \<Longrightarrow> (of_char (char_of (48 + d :: nat)) :: nat) = 48 + d"
  by (simp add: of_char_of)

lemma is_digit_char: "d < 10 \<Longrightarrow> is_digit (char_of (48 + d :: nat))"
  by (simp add: is_digit_def of_char_digit)

lemma digit_val_char: "d < 10 \<Longrightarrow> digit_val (char_of (48 + d :: nat)) = d"
  by (simp add: digit_val_def of_char_digit Let_def)

lemma dec_nonempty: "dec n \<noteq> []"
  by (subst dec.simps) simp

lemma dec_digits: "c \<in> set (dec n) \<Longrightarrow> is_digit c"
proof (induction n arbitrary: c rule: dec.induct)
  case (1 n)
  show ?case
  proof (cases "n < 10")
    case True
    with "1.prems" show ?thesis by (subst (asm) dec.simps) (simp add: is_digit_char)
  next
    case False
    with "1.prems" have "c \<in> set (dec (n div 10)) \<or> c = char_of (48 + n mod 10)"
      by (subst (asm) dec.simps) auto
    with False "1.IH" show ?thesis by (auto simp: is_digit_char)
  qed
qed

lemma digits_val_snoc: "digits_val r (z @ [c]) = digits_val r z * r + digit_val c"
  by (simp add: digits_val_def)

lemma digits_val_dec: "digits_val 10 (dec n) = n"
proof (induction n rule: dec.induct)
  case (1 n)
  show ?case
  proof (cases "n < 10")
    case True
    then show ?thesis by (subst dec.simps) (simp add: digits_val_def digit_val_char)
  next
    case False
    then have "dec n = dec (n div 10) @ [char_of (48 + n mod 10)]"
      by (subst dec.simps) simp
    with False "1.IH" show ?thesis by (simp add: digits_val_snoc digit_val_char)
  qed
qed

lemma dec_length_le: "n < 10 ^ k \<Longrightarrow> 0 < k \<Longrightarrow> length (dec n) \<le> k"
proof (induction n arbitrary: k rule: dec.induct)
  case (1 n)
  show ?case
  proof (cases "n < 10")
    case True
    with "1.prems" show ?thesis by (subst dec.simps) simp
  next
    case False
    then have eq: "dec n = dec (n div 10) @ [char_of (48 + n mod 10)]"
      by (subst dec.simps) simp
    from False "1.prems" obtain k' where k: "k = Suc k'" "0 < k'"
      by (cases k; cases "k - 1") auto
    with "1.prems" have "n div 10 < 10 ^ k'" by (simp add: less_mult_imp_div_less mult.commute)
    with "1.IH"[OF False this] k have "length (dec (n div 10)) \<le> k'" by simp
    with eq k show ?thesis by simp
  qed
qed

lemma strip_zeros_pad:
  "strip_zeros ds @ replicate (length ds - length (strip_zeros ds)) (CHR ''0'') = ds"
proof -
  let ?P = "\<lambda>c. c = CHR ''0''"
  let ?t = "takeWhile ?P (rev ds)" and ?d = "dropWhile ?P (rev ds)"
  have t: "replicate (length ?t) (CHR ''0'') = ?t"
    by (rule replicate_length_same) (auto dest: set_takeWhileD)
  have "length ds = length ?t + length ?d"
    by (metis length_append length_rev takeWhile_dropWhile_id)
  then have l: "length ds - length (strip_zeros ds) = length ?t"
    by (simp add: strip_zeros_def)
  have e: "replicate (length ?t) (CHR ''0'') = rev ?t"
    using t by (metis rev_replicate)
  have "rev ?d @ rev ?t = rev (?t @ ?d)" by (simp only: rev_append)
  also have "\<dots> = ds" by (simp only: takeWhile_dropWhile_id rev_rev_ident)
  finally have x: "rev ?d @ rev ?t = ds" .
  show ?thesis
    apply (subst l)
    apply (subst e)
    apply (simp only: strip_zeros_def)
    apply (rule x)
    done
qed

lemma strip_zeros_length: "length (strip_zeros ds) \<le> length ds"
  by (simp add: strip_zeros_def length_dropWhile_le order_trans[OF length_dropWhile_le])

lemma pos_to_string_nat:
  assumes "0 < m" "m < 10 ^ 21"
  shows "pos_to_string (of_nat m) = dec m"
proof -
  have q: "quotient_of (of_nat m :: rat) = (int m, 1)"
    using quotient_of_int[of "int m"] by simp
  have sc: "scale10 (nat (snd (quotient_of (of_nat m :: rat)))) (of_nat m) 0 = (m, 0)"
    by (simp add: q)
  have len: "length (dec m) \<le> 21" using assms by (simp add: dec_length_le)
  have k: "length (strip_zeros (dec m)) \<le> length (dec m)" by (rule strip_zeros_length)
  have e: "nat (int (length (dec m)) - int (length (strip_zeros (dec m))))
             = length (dec m) - length (strip_zeros (dec m))"
    using k by simp
  have "layout (strip_zeros (dec m)) (int (length (dec m)))
          = strip_zeros (dec m) @ replicate (length (dec m) - length (strip_zeros (dec m))) (CHR ''0'')"
    unfolding layout_def Let_def using len k e by simp
  then show ?thesis
    unfolding pos_to_string_def sc by (simp add: strip_zeros_pad)
qed

lemma parseInt_str_dec: "m < 10 ^ 21 \<Longrightarrow> parseInt_str (dec m) = Fin (of_nat m)"
proof -
  obtain c r where cr: "dec m = c # r" using dec_nonempty by (cases "dec m") auto
  have dc: "is_digit c" using dec_digits[of c m] cr by simp
  have nws: "\<not> is_ws c" using dc by (auto simp: is_ws_def is_digit_def)
  have ns: "c \<noteq> CHR ''-''" "c \<noteq> CHR ''+''" using dc by (auto simp: is_digit_def)
  have tr: "trim_start (dec m) = dec m" by (simp add: trim_start_def cr nws)
  have sg: "(case dec m of c # r \<Rightarrow> if c = CHR ''-'' then (- 1 :: int) else 1 | [] \<Rightarrow> 1) = 1"
    by (simp add: cr ns)
  have s1: "(case dec m of c # r \<Rightarrow> if c = CHR ''-'' \<or> c = CHR ''+'' then r else dec m
             | [] \<Rightarrow> dec m) = dec m"
    by (simp add: cr ns)
  have nh: "(case dec m of [] \<Rightarrow> False | [c] \<Rightarrow> False
             | c # d # r \<Rightarrow> c = CHR ''0'' \<and> (d = CHR ''x'' \<or> d = CHR ''X'')) = False"
  proof (cases r)
    case Nil then show ?thesis by (simp add: cr)
  next
    case (Cons d r')
    then have "is_digit d" using dec_digits[of d m] cr by simp
    then have "d \<noteq> CHR ''x''" "d \<noteq> CHR ''X''" by (auto simp: is_digit_def)
    then show ?thesis by (simp add: cr Cons)
  qed
  have tw: "takeWhile is_digit (dec m) = dec m"
    by (simp add: takeWhile_eq_all_conv dec_digits)
  assume "m < 10 ^ 21"
  then show ?thesis
    unfolding parseInt_str_def tr Let_def sg s1 nh
    by (simp add: tw digits_val_dec dec_nonempty to_number_nat)
qed

lemma string_of_nat: "m < 10 ^ 21 \<Longrightarrow> string_of (JNum (Fin (of_nat m))) = dec m"
proof (cases "m = 0")
  case True
  have "dec 0 = ''0''" by code_simp
  with True show ?thesis by simp
next
  case False
  assume "m < 10 ^ 21"
  with False show ?thesis by (simp add: pos_to_string_nat)
qed

lemma parseInt_nat: "m < 10 ^ 21 \<Longrightarrow> parseInt (JNum (Fin (of_nat m))) = Inr (Fin (of_nat m))"
  by (simp only: parseInt_def to_string_def throws.simps if_False bind_e_simps string_of_nat
        parseInt_str_dec)

lemma parseFloat_str_dec: "m < 10 ^ 21 \<Longrightarrow> parseFloat_str (dec m) = Fin (of_nat m)"
proof -
  assume m: "m < 10 ^ 21"
  obtain c r where cr: "dec m = c # r" using dec_nonempty by (cases "dec m") auto
  have dc: "is_digit c" using dec_digits[of c m] cr by simp
  have nws: "\<not> is_ws c" using dc by (auto simp: is_ws_def is_digit_def)
  have ns: "c \<noteq> CHR ''-''" "c \<noteq> CHR ''+''" "c \<noteq> CHR ''I''" using dc by (auto simp: is_digit_def)
  have tr: "trim_start (dec m) = dec m" by (simp add: trim_start_def cr nws)
  have ng: "(case dec m of c # r \<Rightarrow> c = CHR ''-'' | [] \<Rightarrow> False) = False"
    by (simp add: cr ns)
  have s1: "(case dec m of c # r \<Rightarrow> if c = CHR ''-'' \<or> c = CHR ''+'' then r else dec m
             | [] \<Rightarrow> dec m) = dec m"
    by (simp add: cr ns)
  have ni: "take 8 (dec m) \<noteq> ''Infinity''" using ns by (simp add: cr)
  have tw: "takeWhile is_digit (dec m) = dec m"
    by (simp add: takeWhile_eq_all_conv dec_digits)
  have dw: "dropWhile is_digit (dec m) = []"
    by (simp add: dropWhile_eq_Nil_conv dec_digits)
  show ?thesis
    unfolding parseFloat_str_def tr Let_def ng s1
    using ni m by (simp add: tw dw digits_val_dec dec_nonempty exponent_of_def pow10_def to_number_nat)
qed

lemma parseFloat_nat: "m < 10 ^ 21 \<Longrightarrow> parseFloat (JNum (Fin (of_nat m))) = Inr (Fin (of_nat m))"
  by (simp only: parseFloat_def to_string_def throws.simps if_False bind_e_simps string_of_nat
        parseFloat_str_dec)

section \<open>The normalizer: defaults and identifiers\<close>

lemma not_throws_or: "\<not> throws a \<Longrightarrow> \<not> throws b \<Longrightarrow> \<not> throws (js_or a b)"
  by (simp add: js_or_def)

lemma parse_returns:
  "\<not> throws v \<Longrightarrow> parseInt v = Inr (parseInt_str (string_of v))"
  "\<not> throws v \<Longrightarrow> parseFloat v = Inr (parseFloat_str (string_of v))"
  by (simp_all add: parseInt_def parseFloat_def to_string_def)

lemma parse_throws:
  "throws v \<Longrightarrow> parseInt v = Inl TypeError"
  "throws v \<Longrightarrow> parseFloat v = Inl TypeError"
  by (simp_all add: parseInt_def parseFloat_def to_string_def)

lemma parse_Inl:
  "parseInt v = Inl err \<Longrightarrow> err = TypeError"
  "parseFloat v = Inl err \<Longrightarrow> err = TypeError"
  by (auto simp: parseInt_def parseFloat_def to_string_def split: if_splits)

lemma parse_defaults:
  "parseInt (JNum (Fin 2)) = Inr (Fin 2)" "parseInt (JNum (Fin 0)) = Inr (Fin 0)"
  "parseFloat (JNum (Fin 0)) = Inr (Fin 0)"
  using parseInt_nat[of 2] parseInt_nat[of 0] parseFloat_nat[of 0] by simp_all

lemma parse_non_numeric:
  "parseFloat (JStr ''abc'') = Inr NaN" "parseInt (JStr ''abc'') = Inr NaN"
  "parseFloat (JBool True) = Inr NaN" "parseInt (JBool True) = Inr NaN"
  by (simp_all add: parseFloat_def parseInt_def to_string_def parseFloat_str_def parseInt_str_def
        trim_start_def is_ws_def is_digit_def)

lemma parse_object:
  "''toString'' \<notin> fst ` set kvs \<Longrightarrow> parseFloat (JObj kvs) = Inr NaN"
  "''toString'' \<notin> fst ` set kvs \<Longrightarrow> parseInt (JObj kvs) = Inr NaN"
  "''toString'' \<in> fst ` set kvs \<Longrightarrow> parseFloat (JObj kvs) = Inl TypeError"
  "''toString'' \<in> fst ` set kvs \<Longrightarrow> parseInt (JObj kvs) = Inl TypeError"
  by (simp_all add: parseFloat_def parseInt_def to_string_def parseFloat_str_def parseInt_str_def
        trim_start_def is_ws_def is_digit_def)

lemma parseInt_year:
  assumes "0 \<le> y" "y < 10 ^ 21"
  shows "parseInt (JNum (Fin (of_int y))) = Inr (Fin (of_int y))"
proof -
  have "nat y < 10 ^ 21" using assms by (simp add: nat_less_iff)
  from parseInt_nat[OF this] assms show ?thesis by simp
qed

lemma absent_no_value: "absent emp ks \<Longrightarrow> no_value emp ks"
  by (simp add: absent_def no_value_def list_all_iff)

lemma transformItem_fields:
  assumes "transformItem dt emp i = Inr r"
  shows "emp \<noteq> Undefined" "emp \<noteq> Null"
    "id_f r = js_or (prop_of emp ''id'') (JNum (Fin (of_nat i)))"
    "nome r = js_or (js_or (js_or (prop_of emp ''nome'') (prop_of emp ''empreendimento''))
                           (prop_of emp ''name'')) (JStr ''N/A'')"
    "cidade r = js_or (js_or (prop_of emp ''cidade'') (prop_of emp ''city'')) (JStr ''N/A'')"
    "estado r = js_or (js_or (js_or (prop_of emp ''estado'') (prop_of emp ''uf''))
                             (prop_of emp ''state'')) (JStr ''N/A'')"
    "bairro r = js_or (js_or (prop_of emp ''bairro'') (prop_of emp ''neighborhood'')) (JStr ''N/A'')"
    "incorporadora r = js_or (js_or (js_or (prop_of emp ''incorporadora'') (prop_of emp ''construtora''))
                                    (prop_of emp ''developer'')) (JStr ''N/A'')"
    "tipo r = js_or (js_or (prop_of emp ''tipo'') (prop_of emp ''type'')) (JStr ''Vertical'')"
    "padrao r = js_or (js_or (prop_of emp ''padrao'') (prop_of emp ''standard'')) (JStr ''Standard'')"
    "tipoImovel r = js_or (js_or (js_or (prop_of emp ''tipologia'') (prop_of emp ''tipo_imovel''))
                                 (prop_of emp ''property_type'')) (JStr ''Padrao'')"
    "status r = js_or (prop_of emp ''status'') (JStr ''Comercializacao'')"
    "dataAtualizacao r = js_or (js_or (prop_of emp ''updated_at'') (prop_of emp ''data_atualizacao''))
                               (JStr (toISOString dt i))"
    "parseInt (js_or (js_or (js_or (prop_of emp ''quartos'') (prop_of emp ''dormitorios''))
                            (prop_of emp ''bedrooms'')) (JNum (Fin 2))) = Inr (quartos r)"
    "parseFloat (js_or (js_or (js_or (prop_of emp ''vgv_total'') (prop_of emp ''vgv''))
                              (prop_of emp ''total_value'')) (JNum (Fin 0))) = Inr (vgvTotal r)"
    "parseFloat (js_or (js_or (prop_of emp ''vgv_vendido'') (prop_of emp ''sold_value''))
                       (JNum (Fin 0))) = Inr (vgvVendido r)"
    "parseInt (js_or (js_or (prop_of emp ''unidades_vendidas'') (prop_of emp ''sold_units''))
                     (JNum (Fin 0))) = Inr (unidadesVendidas r)"
    "parseInt (js_or (js_or (js_or (prop_of emp ''total_unidades'') (prop_of emp ''unidades''))
                            (prop_of emp ''total_units'')) (JNum (Fin 0))) = Inr (totalUnidades r)"
    "parseFloat (js_or (js_or (js_or (prop_of emp ''preco_medio'') (prop_of emp ''ticket_medio''))
                              (prop_of emp ''average_price'')) (JNum (Fin 0))) = Inr (preco r)"
    "parseFloat (js_or (js_or (js_or (prop_of emp ''area_privativa'') (prop_of emp ''m2''))
                              (prop_of emp ''private_area'')) (JNum (Fin 0))) = Inr (m2 r)"
    "parseFloat (js_or (js_or (prop_of emp ''valor_m2'') (prop_of emp ''price_per_sqm''))
                       (JNum (Fin 0))) = Inr (valorM2 r)"
    "parseInt (js_or (js_or (js_or (prop_of emp ''ano_lancamento'') (prop_of emp ''ano''))
                            (prop_of emp ''launch_year''))
                     (JNum (Fin (of_int (getFullYear dt i))))) = Inr (anoLancamento r)"
proof -
  from assms have ne: "\<not> (emp = Undefined \<or> emp = Null)"
    by (auto simp: transformItem_def split: if_splits)
  then show "emp \<noteq> Undefined" "emp \<noteq> Null" by simp_all
  note e = assms[unfolded transformItem_def if_not_P[OF ne] bind_e_Inr]
  from e show
    "id_f r = js_or (prop_of emp ''id'') (JNum (Fin (of_nat i)))"
    "nome r = js_or (js_or (js_or (prop_of emp ''nome'') (prop_of emp ''empreendimento''))
                           (prop_of emp ''name'')) (JStr ''N/A'')"
    "cidade r = js_or (js_or (prop_of emp ''cidade'') (prop_of emp ''city'')) (JStr ''N/A'')"
    "estado r = js_or (js_or (js_or (prop_of emp ''estado'') (prop_of emp ''uf''))
                             (prop_of emp ''state'')) (JStr ''N/A'')"
    "bairro r = js_or (js_or (prop_of emp ''bairro'') (prop_of emp ''neighborhood'')) (JStr ''N/A'')"
    "incorporadora r = js_or (js_or (js_or (prop_of emp ''incorporadora'') (prop_of emp ''construtora''))
                                    (prop_of emp ''developer'')) (JStr ''N/A'')"
    "tipo r = js_or (js_or (prop_of emp ''tipo'') (prop_of emp ''type'')) (JStr ''Vertical'')"
    "padrao r = js_or (js_or (prop_of emp ''padrao'') (prop_of emp ''standard'')) (JStr ''Standard'')"
    "tipoImovel r = js_or (js_or (js_or (prop_of emp ''tipologia'') (prop_of emp ''tipo_imovel''))
                                 (prop_of emp ''property_type'')) (JStr ''Padrao'')"
    "status r = js_or (prop_of emp ''status'') (JStr ''Comercializacao'')"
    "dataAtualizacao r = js_or (js_or (prop_of emp ''updated_at'') (prop_of emp ''data_atualizacao''))
                               (JStr (toISOString dt i))"
    by auto
  from e show
    "parseInt (js_or (js_or (js_or (prop_of emp ''quartos'') (prop_of emp ''dormitorios''))
                            (prop_of emp ''bedrooms'')) (JNum (Fin 2))) = Inr (quartos r)"
    "parseFloat (js_or (js_or (js_or (prop_of emp ''vgv_total'') (prop_of emp ''vgv''))
                              (prop_of emp ''total_value'')) (JNum (Fin 0))) = Inr (vgvTotal r)"
    "parseFloat (js_or (js_or (prop_of emp ''vgv_vendido'') (prop_of emp ''sold_value''))
                       (JNum (Fin 0))) = Inr (vgvVendido r)"
    "parseInt (js_or (js_or (prop_of emp ''unidades_vendidas'') (prop_of emp ''sold_units''))
                     (JNum (Fin 0))) = Inr (unidadesVendidas r)"
    "parseInt (js_or (js_or (js_or (prop_of emp ''total_unidades'') (prop_of emp ''unidades''))
                            (prop_of emp ''total_units'')) (JNum (Fin 0))) = Inr (totalUnidades r)"
    "parseFloat (js_or (js_or (js_or (prop_of emp ''preco_medio'') (prop_of emp ''ticket_medio''))
                              (prop_of emp ''average_price'')) (JNum (Fin 0))) = Inr (preco r)"
    "parseFloat (js_or (js_or (js_or (prop_of emp ''area_privativa'') (prop_of emp ''m2''))
                              (prop_of emp ''private_area'')) (JNum (Fin 0))) = Inr (m2 r)"
    "parseFloat (js_or (js_or (prop_of emp ''valor_m2'') (prop_of emp ''price_per_sqm''))
                       (JNum (Fin 0))) = Inr (valorM2 r)"
    "parseInt (js_or (js_or (js_or (prop_of emp ''ano_lancamento'') (prop_of emp ''ano''))
                            (prop_of emp ''launch_year''))
                     (JNum (Fin (of_int (getFullYear dt i))))) = Inr (anoLancamento r)"
    by auto
qed

lemma transformItem_returns:
  assumes "emp \<noteq> Undefined" "emp \<noteq> Null" "\<forall>k. \<not> throws (prop_of emp k)"
  shows "\<exists>r. transformItem dt emp i = Inr r"
proof -
  have t: "\<And>a b. \<not> throws a \<Longrightarrow> \<not> throws b \<Longrightarrow> throws (js_or a b) = False"
    by (simp add: js_or_def)
  have p: "\<And>k. throws (prop_of emp k) = False" using assms(3) by simp
  show ?thesis
    using assms(1,2) by (simp add: transformItem_def parseInt_def parseFloat_def to_string_def t p)
qed

lemma transformItem_Inl: "transformItem dt emp i = Inl err \<Longrightarrow> err = TypeError"
  by (auto simp: transformItem_def bind_e_Inl split: if_splits dest: parse_Inl)

lemma transformItem_null:
  "emp = Undefined \<or> emp = Null \<Longrightarrow> transformItem dt emp i = Inl TypeError"
  by (auto simp: transformItem_def)

lemma string_defaults:
  assumes "transformItem dt emp i = Inr r"
  shows
  "no_value emp [''nome'', ''empreendimento'', ''name''] \<Longrightarrow> nome r = JStr ''N/A''"
  "no_value emp [''cidade'', ''city''] \<Longrightarrow> cidade r = JStr ''N/A''"
  "no_value emp [''estado'', ''uf'', ''state''] \<Longrightarrow> estado r = JStr ''N/A''"
  "no_value emp [''bairro'', ''neighborhood''] \<Longrightarrow> bairro r = JStr ''N/A''"
  "no_value emp [''incorporadora'', ''construtora'', ''developer''] \<Longrightarrow> incorporadora r = JStr ''N/A''"
  "no_value emp [''tipo'', ''type''] \<Longrightarrow> tipo r = JStr ''Vertical''"
  "no_value emp [''padrao'', ''standard''] \<Longrightarrow> padrao r = JStr ''Standard''"
  "no_value emp [''tipologia'', ''tipo_imovel'', ''property_type''] \<Longrightarrow> tipoImovel r = JStr ''Padrao''"
  "no_value emp [''status''] \<Longrightarrow> status r = JStr ''Comercializacao''"
  "no_value emp [''updated_at'', ''data_atualizacao''] \<Longrightarrow> dataAtualizacao r = JStr (toISOString dt i)"
  by (simp_all add: transformItem_fields[OF assms] no_value_def js_or_def)

lemma numeric_defaults:
  assumes "transformItem dt emp i = Inr r"
  shows
  "no_value emp [''quartos'', ''dormitorios'', ''bedrooms''] \<Longrightarrow> quartos r = Fin 2"
  "no_value emp [''vgv_total'', ''vgv'', ''total_value''] \<Longrightarrow> vgvTotal r = Fin 0"
  "no_value emp [''vgv_vendido'', ''sold_value''] \<Longrightarrow> vgvVendido r = Fin 0"
  "no_value emp [''unidades_vendidas'', ''sold_units''] \<Longrightarrow> unidadesVendidas r = Fin 0"
  "no_value emp [''total_unidades'', ''unidades'', ''total_units''] \<Longrightarrow> totalUnidades r = Fin 0"
  "no_value emp [''preco_medio'', ''ticket_medio'', ''average_price''] \<Longrightarrow> preco r = Fin 0"
  "no_value emp [''area_privativa'', ''m2'', ''private_area''] \<Longrightarrow> m2 r = Fin 0"
  "no_value emp [''valor_m2'', ''price_per_sqm''] \<Longrightarrow> valorM2 r = Fin 0"
  "no_value emp [''ano_lancamento'', ''ano'', ''launch_year''] \<Longrightarrow>
     parseInt (JNum (Fin (of_int (getFullYear dt i)))) = Inr (anoLancamento r)"
  using transformItem_fields(14-22)[OF assms]
  by (simp_all add: no_value_def js_or_def parse_defaults)

lemma first_alias:
  assumes "transformItem dt emp i = Inr r"
  shows
  "truthy (prop_of emp ''quartos'') \<Longrightarrow> parseInt (prop_of emp ''quartos'') = Inr (quartos r)"
  "truthy (prop_of emp ''vgv_total'') \<Longrightarrow> parseFloat (prop_of emp ''vgv_total'') = Inr (vgvTotal r)"
  "truthy (prop_of emp ''vgv_vendido'') \<Longrightarrow> parseFloat (prop_of emp ''vgv_vendido'') = Inr (vgvVendido r)"
  "truthy (prop_of emp ''unidades_vendidas'') \<Longrightarrow>
     parseInt (prop_of emp ''unidades_vendidas'') = Inr (unidadesVendidas r)"
  "truthy (prop_of emp ''total_unidades'') \<Longrightarrow>
     parseInt (prop_of emp ''total_unidades'') = Inr (totalUnidades r)"
  "truthy (prop_of emp ''preco_medio'') \<Longrightarrow> parseFloat (prop_of emp ''preco_medio'') = Inr (preco r)"
  "truthy (prop_of emp ''area_privativa'') \<Longrightarrow> parseFloat (prop_of emp ''area_privativa'') = Inr (m2 r)"
  "truthy (prop_of emp ''valor_m2'') \<Longrightarrow> parseFloat (prop_of emp ''valor_m2'') = Inr (valorM2 r)"
  "truthy (prop_of emp ''ano_lancamento'') \<Longrightarrow>
     parseInt (prop_of emp ''ano_lancamento'') = Inr (anoLancamento r)"
  using transformItem_fields(14-22)[OF assms]
  by (simp_all add: js_or_def)

lemma map_e_Inr:
  "map_e f xs = Inr ys \<longleftrightarrow> length ys = length xs \<and> (\<forall>n < length xs. f (xs ! n) = Inr (ys ! n))"
proof (induction xs arbitrary: ys)
  case Nil
  then show ?case by auto
next
  case (Cons x xs)
  show ?case
  proof (cases ys)
    case Nil
    then show ?thesis by (auto simp: bind_e_Inr)
  next
    case (Cons y ys')
    have "map_e f (x # xs) = Inr (y # ys') \<longleftrightarrow> f x = Inr y \<and> map_e f xs = Inr ys'"
      by (auto simp: bind_e_Inr)
    also have "\<dots> \<longleftrightarrow> f x = Inr y \<and> length ys' = length xs \<and> (\<forall>n < length xs. f (xs ! n) = Inr (ys' ! n))"
      by (simp add: Cons.IH)
    also have "\<dots> \<longleftrightarrow> length (y # ys') = length (x # xs)
                     \<and> (\<forall>n < length (x # xs). f ((x # xs) ! n) = Inr ((y # ys') ! n))"
      by (auto simp: nth_Cons split: nat.splits)
    finally show ?thesis using Cons by simp
  qed
qed

lemma map_e_returns: "\<forall>x \<in> set xs. \<exists>y. f x = Inr y \<Longrightarrow> \<exists>ys. map_e f xs = Inr ys"
  by (induction xs) auto

lemma map_e_throws:
  "\<exists>x \<in> set xs. f x = Inl TypeError \<Longrightarrow> \<forall>x err. f x = Inl err \<longrightarrow> err = TypeError \<Longrightarrow>
   map_e f xs = Inl TypeError"
proof (induction xs)
  case Nil
  then show ?case by simp
next
  case (Cons x xs)
  show ?case
  proof (cases "f x")
    case (Inl err)
    with Cons.prems(2) show ?thesis by auto
  next
    case (Inr y)
    with Cons.prems have "\<exists>x \<in> set xs. f x = Inl TypeError" by auto
    from Cons.IH[OF this Cons.prems(2)] Inr show ?thesis by simp
  qed
qed

lemma map_e_Inl: "map_e f xs = Inl err \<Longrightarrow> \<exists>x \<in> set xs. f x = Inl err"
  by (induction xs) (auto simp: bind_e_Inl)

lemma transformData_nth:
  assumes "transformData dt apiData = Inr rs"
  shows "length rs = length apiData"
    "i < length apiData \<Longrightarrow> transformItem dt (apiData ! i) i = Inr (rs ! i)"
proof -
  from assms have m: "length rs = length (enumerate 0 apiData)
     \<and> (\<forall>n < length (enumerate 0 apiData).
          (\<lambda>(index, emp). transformItem dt emp index) (enumerate 0 apiData ! n) = Inr (rs ! n))"
    unfolding transformData_def map_e_Inr .
  then show "length rs = length apiData" by simp
  assume "i < length apiData"
  with m show "transformItem dt (apiData ! i) i = Inr (rs ! i)"
    by (auto simp: nth_enumerate_eq)
qed

lemma transformData_returns:
  assumes "\<forall>emp \<in> set apiData. emp \<noteq> Undefined \<and> emp \<noteq> Null \<and> (\<forall>k. \<not> throws (prop_of emp k))"
  shows "\<exists>rs. transformData dt apiData = Inr rs"
  unfolding transformData_def
proof (rule map_e_returns, rule ballI)
  fix x assume xin: "x \<in> set (enumerate 0 apiData)"
  obtain n emp where x: "x = (n, emp)" by (cases x)
  have "emp \<in> set apiData" using xin x by (auto simp: in_set_enumerate_eq)
  with x assms transformItem_returns[of emp dt n]
  show "\<exists>y. (case x of (index, emp) \<Rightarrow> transformItem dt emp index) = Inr y" by auto
qed

lemma transformData_Inl:
  "transformData dt apiData = Inl err \<Longrightarrow> err = TypeError"
  unfolding transformData_def by (auto dest!: map_e_Inl transformItem_Inl)

lemma transformData_null:
  assumes "\<exists>emp \<in> set apiData. emp = Undefined \<or> emp = Null"
  shows "transformData dt apiData = Inl TypeError"
proof -
  from assms obtain emp where e: "emp \<in> set apiData" "emp = Undefined \<or> emp = Null" by blast
  from e(1) obtain n where "n < length apiData" "apiData ! n = emp" by (auto simp: in_set_conv_nth)
  then have "(n, emp) \<in> set (enumerate 0 apiData)" by (auto simp: in_set_enumerate_eq)
  moreover have "(\<lambda>(index, emp). transformItem dt emp index) (n, emp) = Inl TypeError"
    using e(2) by (simp add: transformItem_null)
  ultimately have a: "\<exists>x \<in> set (enumerate 0 apiData). (\<lambda>(index, emp). transformItem dt emp index) x = Inl TypeError"
    by blast
  have b: "\<forall>x err. (\<lambda>(index, emp). transformItem dt emp index) x = Inl err \<longrightarrow> err = TypeError"
    by (auto dest: transformItem_Inl)
  show ?thesis unfolding transformData_def by (rule map_e_throws[OF a b])
qed

lemma id_f_item:
  "transformItem dt emp i = Inr r \<Longrightarrow>
   id_f r = (if truthy (prop_of emp ''id'') then prop_of emp ''id'' else JNum (Fin (of_nat i)))"
  by (simp add: transformItem_fields(3) js_or_def)

text \<open>
  Claim C5 as it is stated fails. Of the empty record \<open>{}\<close> the normalizer makes a record
  with 2 bedrooms and the launch year 2024, not 0, and with the type \<open>Vertical\<close>, the tier
  \<open>Standard\<close>, the unit type \<open>Padrao\<close> and the status \<open>Comercializacao\<close>, which are not the
  \<open>N/A\<close> of the name; of \<open>{vgv_total: "abc"}\<close> it makes the launched value \<open>NaN\<close>, not 0; and
  it fails, with a \<open>TypeError\<close>, on the lists \<open>[null]\<close> and \<open>[{quartos: {toString: "x"}}]\<close>.
\<close>

theorem transformItem_defaults_differ:
  "(case transformItem date_2024 (JObj []) 0 of
      Inr r \<Rightarrow> quartos r = Fin 2 \<and> anoLancamento r = Fin 2024 \<and> nome r = JStr ''N/A''
               \<and> tipo r = JStr ''Vertical'' \<and> padrao r = JStr ''Standard''
               \<and> tipoImovel r = JStr ''Padrao'' \<and> status r = JStr ''Comercializacao''
    | Inl err \<Rightarrow> False)
   \<and> (case transformItem date_2024 (JObj [(''vgv_total'', JStr ''abc'')]) 0 of
         Inr r \<Rightarrow> vgvTotal r = NaN \<and> vgvTotal r \<noteq> Fin 0
       | Inl err \<Rightarrow> False)
   \<and> transformData date_2024 [Null] = Inl TypeError
   \<and> transformData date_2024 [JObj [(''quartos'', JObj [(''toString'', JStr ''x'')])]]
       = Inl TypeError"
proof -
  have nv: "\<And>ks. no_value (JObj []) ks"
    by (simp add: no_value_def list_all_iff)
  obtain r0 where r0: "transformItem date_2024 (JObj []) 0 = Inr r0"
    using transformItem_returns[of "JObj []" date_2024 0] by auto
  have "parseInt (JNum (Fin (of_int (getFullYear date_2024 0)))) = Inr (anoLancamento r0)"
    by (rule numeric_defaults(9)[OF r0 nv])
  then have y: "anoLancamento r0 = Fin 2024"
    using parseInt_year[of 2024] by (simp add: date_2024_def)
  have a: "case transformItem date_2024 (JObj []) 0 of
      Inr r \<Rightarrow> quartos r = Fin 2 \<and> anoLancamento r = Fin 2024 \<and> nome r = JStr ''N/A''
               \<and> tipo r = JStr ''Vertical'' \<and> padrao r = JStr ''Standard''
               \<and> tipoImovel r = JStr ''Padrao'' \<and> status r = JStr ''Comercializacao''
    | Inl err \<Rightarrow> False"
    by (simp add: r0 y string_defaults[OF r0 nv] numeric_defaults(1)[OF r0 nv])
  have "\<forall>k. \<not> throws (prop_of (JObj [(''vgv_total'', JStr ''abc'')]) k)" by simp
  then obtain r1 where r1: "transformItem date_2024 (JObj [(''vgv_total'', JStr ''abc'')]) 0 = Inr r1"
    using transformItem_returns[of "JObj [(''vgv_total'', JStr ''abc'')]" date_2024 0] by auto
  have "parseFloat (prop_of (JObj [(''vgv_total'', JStr ''abc'')]) ''vgv_total'') = Inr (vgvTotal r1)"
    by (rule first_alias(2)[OF r1]) simp
  then have v: "vgvTotal r1 = NaN" by (simp add: parse_non_numeric)
  have b: "case transformItem date_2024 (JObj [(''vgv_total'', JStr ''abc'')]) 0 of
         Inr r \<Rightarrow> vgvTotal r = NaN \<and> vgvTotal r \<noteq> Fin 0
       | Inl err \<Rightarrow> False"
    by (simp add: r1 v)
  have c: "transformData date_2024 [Null] = Inl TypeError"
    by (rule transformData_null) simp
  have d: "transformData date_2024 [JObj [(''quartos'', JObj [(''toString'', JStr ''x'')])]]
       = Inl TypeError"
    by (simp add: transformData_def enumerate_eq_zip transformItem_def js_or_def parse_throws)
  show ?thesis using a b c d by (intro conjI)
qed

text \<open>
  Claim C5, amended. The normalizer fails only with a \<open>TypeError\<close>, and it does on a list
  with a \<open>null\<close> or \<open>undefined\<close> element. On a list without such elements, in which no
  property of a record is an object with a \<open>toString\<close> property of its own (or an array
  that holds one), it does not fail, and makes one record of each element. When a field
  has no value under any name of its chain (each is absent or falsy), the name, city,
  state, neighbourhood and developer are \<open>N/A\<close>, the type is \<open>Vertical\<close>, the tier
  \<open>Standard\<close>, the unit type \<open>Padrao\<close>, the status \<open>Comercializacao\<close> and the update time
  the current time; the bedroom count is 2, the launch year is the current year, and the
  launched and sold values, the sold and total units, the price, the area and the price
  per area are 0. A truthy value under the first name of a numeric field goes through
  \<open>parseInt\<close> or \<open>parseFloat\<close>, which give \<open>NaN\<close>, not 0, for a string such as \<open>abc\<close>, for
  \<open>true\<close> and for an object without a \<open>toString\<close> property of its own, and which throw a
  \<open>TypeError\<close> for an object with one.
\<close>

theorem transformData_defaults:
  "((\<forall>emp \<in> set apiData. emp \<noteq> Undefined \<and> emp \<noteq> Null \<and> (\<forall>k. \<not> throws (prop_of emp k))) \<longrightarrow>
      (\<exists>rs. transformData dt apiData = Inr rs \<and> length rs = length apiData
            \<and> (\<forall>n < length apiData. transformItem dt (apiData ! n) n = Inr (rs ! n))))
   \<and> (absent emp ks \<longrightarrow> no_value emp ks)
   \<and> (transformItem dt emp i = Inr r \<and> no_value emp [''quartos'', ''dormitorios'', ''bedrooms''] \<longrightarrow>
        quartos r = Fin 2)
   \<and> (transformItem dt emp i = Inr r \<and> truthy (prop_of emp ''vgv_total'') \<longrightarrow>
        parseFloat (prop_of emp ''vgv_total'') = Inr (vgvTotal r))
   \<and> ((\<exists>emp \<in> set apiData. emp = Undefined \<or> emp = Null) \<longrightarrow>
        transformData dt apiData = Inl TypeError)
   \<and> (transformData dt apiData = Inl err \<longrightarrow> err = TypeError)
   \<and> (transformItem dt emp i = Inr r \<and> no_value emp [''nome'', ''empreendimento'', ''name''] \<longrightarrow>
        nome r = JStr ''N/A'')
   \<and> (transformItem dt emp i = Inr r \<and> no_value emp [''cidade'', ''city''] \<longrightarrow>
        cidade r = JStr ''N/A'')
   \<and> (transformItem dt emp i = Inr r \<and> no_value emp [''estado'', ''uf'', ''state''] \<longrightarrow>
        estado r = JStr ''N/A'')
   \<and> (transformItem dt emp i = Inr r \<and> no_value emp [''bairro'', ''neighborhood''] \<longrightarrow>
        bairro r = JStr ''N/A'')
   \<and> (transformItem dt emp i = Inr r
        \<and> no_value emp [''incorporadora'', ''construtora'', ''developer''] \<longrightarrow>
        incorporadora r = JStr ''N/A'')
   \<and> (transformItem dt emp i = Inr r \<and> no_value emp [''tipo'', ''type''] \<longrightarrow>
        tipo r = JStr ''Vertical'')
   \<and> (transformItem dt emp i = Inr r \<and> no_value emp [''padrao'', ''standard''] \<longrightarrow>
        padrao r = JStr ''Standard'')
   \<and> (transformItem dt emp i = Inr r
        \<and> no_value emp [''tipologia'', ''tipo_imovel'', ''property_type''] \<longrightarrow>
        tipoImovel r = JStr ''Padrao'')
   \<and> (transformItem dt emp i = Inr r \<and> no_value emp [''status''] \<longrightarrow>
        status r = JStr ''Comercializacao'')
   \<and> (transformItem dt emp i = Inr r \<and> no_value emp [''updated_at'', ''data_atualizacao''] \<longrightarrow>
        dataAtualizacao r = JStr (toISOString dt i))
   \<and> (transformItem dt emp i = Inr r \<and> no_value emp [''ano_lancamento'', ''ano'', ''launch_year'']
        \<and> 0 \<le> getFullYear dt i \<and> getFullYear dt i < 10 ^ 21 \<longrightarrow>
        anoLancamento r = Fin (of_int (getFullYear dt i)))
   \<and> (transformItem dt emp i = Inr r \<and> no_value emp [''vgv_total'', ''vgv'', ''total_value''] \<longrightarrow>
        vgvTotal r = Fin 0)
   \<and> (transformItem dt emp i = Inr r \<and> no_value emp [''vgv_vendido'', ''sold_value''] \<longrightarrow>
        vgvVendido r = Fin 0)
   \<and> (transformItem dt emp i = Inr r \<and> no_value emp [''unidades_vendidas'', ''sold_units''] \<longrightarrow>
        unidadesVendidas r = Fin 0)
   \<and> (transformItem dt emp i = Inr r
        \<and> no_value emp [''total_unidades'', ''unidades'', ''total_units''] \<longrightarrow>
        totalUnidades r = Fin 0)
   \<and> (transformItem dt emp i = Inr r
        \<and> no_value emp [''preco_medio'', ''ticket_medio'', ''average_price''] \<longrightarrow>
        preco r = Fin 0)
   \<and> (transformItem dt emp i = Inr r
        \<and> no_value emp [''area_privativa'', ''m2'', ''private_area''] \<longrightarrow>
        m2 r = Fin 0)
   \<and> (transformItem dt emp i = Inr r \<and> no_value emp [''valor_m2'', ''price_per_sqm''] \<longrightarrow>
        valorM2 r = Fin 0)
   \<and> (transformItem dt emp i = Inr r \<and> truthy (prop_of emp ''quartos'') \<longrightarrow>
        parseInt (prop_of emp ''quartos'') = Inr (quartos r))
   \<and> (transformItem dt emp i = Inr r \<and> truthy (prop_of emp ''ano_lancamento'') \<longrightarrow>
        parseInt (prop_of emp ''ano_lancamento'') = Inr (anoLancamento r))
   \<and> (transformItem dt emp i = Inr r \<and> truthy (prop_of emp ''unidades_vendidas'') \<longrightarrow>
        parseInt (prop_of emp ''unidades_vendidas'') = Inr (unidadesVendidas r))
   \<and> (transformItem dt emp i = Inr r \<and> truthy (prop_of emp ''total_unidades'') \<longrightarrow>
        parseInt (prop_of emp ''total_unidades'') = Inr (totalUnidades r))
   \<and> (transformItem dt emp i = Inr r \<and> truthy (prop_of emp ''vgv_vendido'') \<longrightarrow>
        parseFloat (prop_of emp ''vgv_vendido'') = Inr (vgvVendido r))
   \<and> (transformItem dt emp i = Inr r \<and> truthy (prop_of emp ''preco_medio'') \<longrightarrow>
        parseFloat (prop_of emp ''preco_medio'') = Inr (preco r))
   \<and> (transformItem dt emp i = Inr r \<and> truthy (prop_of emp ''area_privativa'') \<longrightarrow>
        parseFloat (prop_of emp ''area_privativa'') = Inr (m2 r))
   \<and> (transformItem dt emp i = Inr r \<and> truthy (prop_of emp ''valor_m2'') \<longrightarrow>
        parseFloat (prop_of emp ''valor_m2'') = Inr (valorM2 r))
   \<and> parseFloat (JStr ''abc'') = Inr NaN \<and> parseInt (JStr ''abc'') = Inr NaN
   \<and> parseFloat (JBool True) = Inr NaN \<and> parseInt (JBool True) = Inr NaN
   \<and> (''toString'' \<notin> fst ` set kvs \<longrightarrow> parseFloat (JObj kvs) = Inr NaN)
   \<and> (''toString'' \<notin> fst ` set kvs \<longrightarrow> parseInt (JObj kvs) = Inr NaN)
   \<and> (''toString'' \<in> fst ` set kvs \<longrightarrow> parseFloat (JObj kvs) = Inl TypeError)
   \<and> (''toString'' \<in> fst ` set kvs \<longrightarrow> parseInt (JObj kvs) = Inl TypeError)"
proof -
  have a: "(\<forall>emp \<in> set apiData. emp \<noteq> Undefined \<and> emp \<noteq> Null \<and> (\<forall>k. \<not> throws (prop_of emp k))) \<longrightarrow>
      (\<exists>rs. transformData dt apiData = Inr rs \<and> length rs = length apiData
            \<and> (\<forall>n < length apiData. transformItem dt (apiData ! n) n = Inr (rs ! n)))"
    using transformData_returns[of apiData dt] transformData_nth[of dt apiData] by metis
  have y: "transformItem dt emp i = Inr r \<and> no_value emp [''ano_lancamento'', ''ano'', ''launch_year'']
        \<and> 0 \<le> getFullYear dt i \<and> getFullYear dt i < 10 ^ 21 \<longrightarrow>
        anoLancamento r = Fin (of_int (getFullYear dt i))"
    using numeric_defaults(9)[of dt emp i r] parseInt_year[of "getFullYear dt i"] by auto
  show ?thesis
    apply (intro conjI)
    apply (rule a)
    apply (rule impI, erule absent_no_value)
    apply (rule impI, erule conjE, erule (1) numeric_defaults)
    apply (rule impI, erule conjE, erule (1) first_alias)
    apply (rule impI, erule transformData_null)
    apply (rule impI, erule transformData_Inl)
    apply (rule impI, erule conjE, erule (1) string_defaults)+
    apply (rule y)
    apply (rule impI, erule conjE, erule (1) numeric_defaults)+
    apply (rule impI, erule conjE, erule (1) first_alias)+
    apply (rule parse_non_numeric)+
    apply (rule impI, erule parse_object)+
    done
qed

theorem transformData_defaults_witness:
  "JObj [] \<noteq> Undefined \<and> JObj [] \<noteq> Null
   \<and> JObj [(''vgv_total'', JBool True)] \<noteq> Undefined \<and> JObj [(''vgv_total'', JBool True)] \<noteq> Null
   \<and> absent (JObj []) [''quartos'', ''dormitorios'', ''bedrooms'']
   \<and> no_value (JObj []) [''quartos'', ''dormitorios'', ''bedrooms'']
   \<and> (\<exists>rs. transformData date_2024 [JObj [], JObj [(''vgv_total'', JBool True)]] = Inr rs
          \<and> length rs = 2 \<and> quartos (rs ! 0) = Fin 2 \<and> vgvTotal (rs ! 1) = NaN)
   \<and> truthy (prop_of (JObj [(''vgv_total'', JBool True)]) ''vgv_total'')"
proof -
  let ?xs = "[JObj [], JObj [(''vgv_total'', JBool True)]]"
  have h: "\<forall>emp \<in> set ?xs. emp \<noteq> Undefined \<and> emp \<noteq> Null \<and> (\<forall>k. \<not> throws (prop_of emp k))"
    by simp
  have ab: "absent (JObj []) [''quartos'', ''dormitorios'', ''bedrooms'']"
    by (simp add: absent_def)
  have t: "truthy (prop_of (JObj [(''vgv_total'', JBool True)]) ''vgv_total'')"
    by simp
  note w0 = transformData_defaults
      [where apiData = ?xs and dt = date_2024
         and emp = "JObj []" and i = 0 and ks = "[''quartos'', ''dormitorios'', ''bedrooms'']"]
  have nv: "no_value (JObj []) [''quartos'', ''dormitorios'', ''bedrooms'']"
    using w0[THEN conjunct2, THEN conjunct1] ab by (rule mp)
  from w0[THEN conjunct1] h obtain rs where
    rs: "transformData date_2024 ?xs = Inr rs" "length rs = length ?xs"
     and el: "\<forall>n < length ?xs. transformItem date_2024 (?xs ! n) n = Inr (rs ! n)"
    by blast
  from el have r0: "transformItem date_2024 (JObj []) 0 = Inr (rs ! 0)"
    and r1: "transformItem date_2024 (JObj [(''vgv_total'', JBool True)]) 1 = Inr (rs ! 1)"
    by (simp_all add: All_less_Suc2)
  note w1 = transformData_defaults
      [where apiData = "[]" and dt = date_2024 and r = "rs ! 0"
         and emp = "JObj []" and i = 0]
  note w2 = transformData_defaults
      [where apiData = "[]" and dt = date_2024 and r = "rs ! 1"
         and emp = "JObj [(''vgv_total'', JBool True)]" and i = 1]
  have q: "quartos (rs ! 0) = Fin 2"
    using w1[THEN conjunct2, THEN conjunct2, THEN conjunct1] r0 nv by blast
  have "parseFloat (prop_of (JObj [(''vgv_total'', JBool True)]) ''vgv_total'') = Inr (vgvTotal (rs ! 1))"
    using w2[THEN conjunct2, THEN conjunct2, THEN conjunct2, THEN conjunct1] r1 t by blast
  then have v: "vgvTotal (rs ! 1) = NaN"
    by (simp add: parse_non_numeric)
  have e: "\<exists>rs. transformData date_2024 ?xs = Inr rs
          \<and> length rs = 2 \<and> quartos (rs ! 0) = Fin 2 \<and> vgvTotal (rs ! 1) = NaN"
    using rs q v by auto
  show ?thesis using ab nv e t by simp
qed

text \<open>
  Claim C9 as it is stated fails: of \<open>[{id: 1}, {}]\<close> the normalizer makes two records with
  the identifier 1, the first from the record and the second from the index.
\<close>

theorem transformData_ids_clash:
  "case transformData date_2024 [JObj [(''id'', JNum (Fin 1))], JObj []] of
     Inr rs \<Rightarrow> map id_f rs = [JNum (Fin 1), JNum (Fin 1)] \<and> \<not> distinct (map id_f rs)
   | Inl err \<Rightarrow> False"
proof -
  let ?xs = "[JObj [(''id'', JNum (Fin 1))], JObj []]"
  have "\<forall>emp \<in> set ?xs. emp \<noteq> Undefined \<and> emp \<noteq> Null \<and> (\<forall>k. \<not> throws (prop_of emp k))"
    by simp
  from transformData_returns[OF this] obtain rs where rs: "transformData date_2024 ?xs = Inr rs"
    by blast
  note n = transformData_nth[OF rs]
  have "id_f (rs ! 0) = JNum (Fin 1)" "id_f (rs ! 1) = JNum (Fin 1)"
    using id_f_item[OF n(2)[of 0]] id_f_item[OF n(2)[of 1]] by simp_all
  moreover from n(1) obtain a b where "rs = [a, b]"
    by (cases rs; cases "tl rs") auto
  ultimately have "map id_f rs = [JNum (Fin 1), JNum (Fin 1)]" by simp
  then show ?thesis by (simp add: rs)
qed

text \<open>
  Claim C9, amended: a record whose identifier is absent (or falsy) receives its index in
  the list as identifier, and a record with a truthy identifier keeps it; the identifiers
  of one pass are pairwise distinct provided that the truthy identifiers of the input
  are pairwise distinct and none of them is the index of a record without one.
\<close>

theorem transformData_ids:
  assumes "transformData dt apiData = Inr rs"
  shows "length rs = length apiData
    \<and> (\<forall>i < length apiData. \<not> truthy (prop_of (apiData ! i) ''id'') \<longrightarrow> id_f (rs ! i) = JNum (Fin (of_nat i)))
    \<and> (\<forall>i < length apiData. truthy (prop_of (apiData ! i) ''id'') \<longrightarrow> id_f (rs ! i) = prop_of (apiData ! i) ''id'')
    \<and> ((\<forall>i < length apiData. \<forall>j < length apiData. i \<noteq> j \<longrightarrow> truthy (prop_of (apiData ! i) ''id'') \<longrightarrow>
            prop_of (apiData ! i) ''id'' \<noteq> prop_of (apiData ! j) ''id''
          \<and> (\<not> truthy (prop_of (apiData ! j) ''id'') \<longrightarrow> prop_of (apiData ! i) ''id'' \<noteq> JNum (Fin (of_nat j))))
        \<longrightarrow> distinct (map id_f rs))"
proof -
  note n = transformData_nth[OF assms]
  have ids: "\<And>i. i < length apiData \<Longrightarrow> id_f (rs ! i) =
     (if truthy (prop_of (apiData ! i) ''id'') then prop_of (apiData ! i) ''id'' else JNum (Fin (of_nat i)))"
    by (rule id_f_item, rule n(2))
  have d: "distinct (map id_f rs)"
    if h: "\<forall>i < length apiData. \<forall>j < length apiData. i \<noteq> j \<longrightarrow> truthy (prop_of (apiData ! i) ''id'') \<longrightarrow>
            prop_of (apiData ! i) ''id'' \<noteq> prop_of (apiData ! j) ''id''
          \<and> (\<not> truthy (prop_of (apiData ! j) ''id'') \<longrightarrow> prop_of (apiData ! i) ''id'' \<noteq> JNum (Fin (of_nat j)))"
  proof -
    have "id_f (rs ! i) \<noteq> id_f (rs ! j)" if "i < length apiData" "j < length apiData" "i \<noteq> j" for i j
    proof (cases "truthy (prop_of (apiData ! i) ''id'')")
      case True
      with h that show ?thesis by (auto simp: ids)
    next
      case False
      show ?thesis
      proof (cases "truthy (prop_of (apiData ! j) ''id'')")
        case True
        with h that False have "prop_of (apiData ! j) ''id'' \<noteq> JNum (Fin (of_nat i))" by metis
        with True False that show ?thesis by (auto simp: ids)
      next
        case F2: False
        with False that show ?thesis by (simp add: ids)
      qed
    qed
    then show ?thesis by (simp add: distinct_conv_nth n(1))
  qed
  show ?thesis using ids d n(1) by auto
qed

theorem transformData_ids_witness:
  "case transformData date_2024 [JObj [(''id'', JNum (Fin 7))], JObj []] of
     Inr rs \<Rightarrow> map id_f rs = [JNum (Fin 7), JNum (Fin 1)] \<and> distinct (map id_f rs)
   | Inl err \<Rightarrow> False"
proof -
  let ?xs = "[JObj [(''id'', JNum (Fin 7))], JObj []]"
  have "\<forall>emp \<in> set ?xs. emp \<noteq> Undefined \<and> emp \<noteq> Null \<and> (\<forall>k. \<not> throws (prop_of emp k))"
    by simp
  from transformData_returns[OF this] obtain rs where r: "transformData date_2024 ?xs = Inr rs"
    by blast
  have h: "\<forall>i < length ?xs. \<forall>j < length ?xs. i \<noteq> j \<longrightarrow> truthy (prop_of (?xs ! i) ''id'') \<longrightarrow>
            prop_of (?xs ! i) ''id'' \<noteq> prop_of (?xs ! j) ''id''
          \<and> (\<not> truthy (prop_of (?xs ! j) ''id'') \<longrightarrow> prop_of (?xs ! i) ''id'' \<noteq> JNum (Fin (of_nat j)))"
    by (simp add: less_Suc_eq all_conj_distrib)
  note w = transformData_ids[OF r]
  have d: "distinct (map id_f rs)" using w h by blast
  have a: "id_f (rs ! 0) = JNum (Fin 7)"
    using w[THEN conjunct2, THEN conjunct2, THEN conjunct1, rule_format, of 0] by simp
  have b: "id_f (rs ! 1) = JNum (Fin 1)"
    using w[THEN conjunct2, THEN conjunct1, rule_format, of 1] by simp
  from w[THEN conjunct1] obtain x y where "rs = [x, y]"
    by (cases rs; cases "tl rs") auto
  with a b have "map id_f rs = [JNum (Fin 7), JNum (Fin 1)]" by simp
  with d show ?thesis by (simp add: r)
qed

section \<open>The expiry of the token\<close>

text \<open>
  Claim C4 as it is stated fails: a token that is the empty string is there, and not
  \<open>null\<close>, and \<open>isTokenExpired\<close> is true for it an hour before \<open>tokenExpiresAt\<close>.
\<close>

theorem isTokenExpired_empty_token:
  "\<not> (isTokenExpired exact \<lparr> token = JStr '''', tokenExpiresAt = Fin 3600000 \<rparr> 0
      \<longleftrightarrow> (JStr '''' = Null \<or> JStr '''' = Undefined)
           \<or> js_ge (Fin (of_int 0)) (js_sub exact (Fin 3600000) (Fin 60000)))"
  by (simp add: isTokenExpired_def js_ge_def js_sub_def exact_def)

text \<open>
  Claim C4, amended: \<open>isTokenExpired\<close> is true iff the token is falsy (absent, that is
  \<open>null\<close> or \<open>undefined\<close>, or \<open>false\<close>, \<open>NaN\<close>, \<open>0\<close> or the empty string) or the current
  time is at least the Number \<open>tokenExpiresAt - 60000\<close> that the runtime computes. Where
  \<open>tokenExpiresAt\<close> is the finite Number \<open>e\<close> and that subtraction is exact, a truthy token
  is expired from \<open>e - 60000\<close> on and not before. Hence for a truthy token whose expiry
  claim decodes to an integer \<open>x\<close> of seconds, with \<open>tokenExpiresAt\<close> as \<open>parseTokenExpiry\<close>
  computes it, and with the product \<open>x * 1000\<close> and the difference \<open>x * 1000 - 60000\<close>
  exact (as they are in IEEE arithmetic whenever \<open>x * 1000\<close> is at most \<open>2^53\<close> in
  magnitude), the predicate is true from \<open>x * 1000 - 60000\<close> on and false before.
\<close>

theorem isTokenExpired_iff:
  "(isTokenExpired ar c now \<longleftrightarrow>
      token c \<in> {Undefined, Null, JBool False, JNum NaN, JNum (Fin 0), JStr ''''}
      \<or> js_ge (Fin (of_int now)) (js_sub ar (tokenExpiresAt c) (Fin 60000)))
   \<and> (truthy t \<and> decode t = Some (Fin (of_int x))
        \<and> fmul ar (of_int x) 1000 = Fin (of_int (x * 1000))
        \<and> fadd ar (of_int (x * 1000)) (- 60000) = Fin (of_int (x * 1000 - 60000)) \<longrightarrow>
        (isTokenExpired ar \<lparr> token = t, tokenExpiresAt = parseTokenExpiry ar decode now0 t \<rparr> now
         \<longleftrightarrow> x * 1000 - 60000 \<le> now))
   \<and> (truthy (token c) \<and> tokenExpiresAt c = Fin e \<and> fadd ar e (- 60000) = Fin (e - 60000) \<longrightarrow>
        (isTokenExpired ar c now \<longleftrightarrow> e - 60000 \<le> of_int now))"
proof -
  have a: "isTokenExpired ar c now \<longleftrightarrow>
      token c \<in> {Undefined, Null, JBool False, JNum NaN, JNum (Fin 0), JStr ''''}
      \<or> js_ge (Fin (of_int now)) (js_sub ar (tokenExpiresAt c) (Fin 60000))"
    using falsy_cases[of "token c"] by (auto simp: isTokenExpired_def)
  have b: "isTokenExpired ar \<lparr> token = t, tokenExpiresAt = parseTokenExpiry ar decode now0 t \<rparr> now
         \<longleftrightarrow> x * 1000 - 60000 \<le> now"
    if "truthy t" "decode t = Some (Fin (of_int x))"
      "fmul ar (of_int x) 1000 = Fin (of_int (x * 1000))"
      "fadd ar (of_int (x * 1000)) (- 60000) = Fin (of_int (x * 1000 - 60000))"
  proof -
    have p: "parseTokenExpiry ar decode now0 t = Fin (of_int (x * 1000))"
      using that(2,3) by (simp add: parseTokenExpiry_def)
    have s: "js_sub ar (Fin (of_int (x * 1000))) (Fin 60000) = Fin (of_int (x * 1000 - 60000))"
      using that(4) by (simp add: js_sub_def)
    have g: "js_ge (Fin (of_int now)) (Fin (of_int (x * 1000 - 60000))) \<longleftrightarrow> x * 1000 - 60000 \<le> now"
      unfolding js_ge_def js_lt.simps by (simp only: of_int_less_iff) auto
    have "isTokenExpired ar \<lparr> token = t, tokenExpiresAt = parseTokenExpiry ar decode now0 t \<rparr> now
            = js_ge (Fin (of_int now)) (js_sub ar (parseTokenExpiry ar decode now0 t) (Fin 60000))"
      using that(1) by (simp add: isTokenExpired_def)
    also have "\<dots> = js_ge (Fin (of_int now)) (Fin (of_int (x * 1000 - 60000)))"
      by (simp only: p s)
    finally show ?thesis using g by simp
  qed
  have c: "isTokenExpired ar c now \<longleftrightarrow> e - 60000 \<le> of_int now"
    if "truthy (token c)" "tokenExpiresAt c = Fin e" "fadd ar e (- 60000) = Fin (e - 60000)"
    using that by (auto simp: isTokenExpired_def js_sub_def js_ge_def)
  show ?thesis using a b c by blast
qed

theorem isTokenExpired_iff_witness:
  "truthy (JStr ''a.b.c'') \<and> (\<lambda>t. Some (Fin (of_int 1700000000))) (JStr ''a.b.c'') = Some (Fin (of_int 1700000000))
   \<and> fmul exact (of_int 1700000000) 1000 = Fin (of_int (1700000000 * 1000))
   \<and> fadd exact (of_int (1700000000 * 1000)) (- 60000) = Fin (of_int (1700000000 * 1000 - 60000))
   \<and> isTokenExpired exact \<lparr> token = JStr ''a.b.c'',
        tokenExpiresAt = parseTokenExpiry exact (\<lambda>t. Some (Fin (of_int 1700000000))) 0 (JStr ''a.b.c'') \<rparr>
        1699999940000
   \<and> \<not> isTokenExpired exact \<lparr> token = JStr ''a.b.c'',
        tokenExpiresAt = parseTokenExpiry exact (\<lambda>t. Some (Fin (of_int 1700000000))) 0 (JStr ''a.b.c'') \<rparr>
        1699999939999"
proof -
  have h: "fmul exact (of_int 1700000000) 1000 = Fin (of_int (1700000000 * 1000))"
    "fadd exact (of_int (1700000000 * 1000)) (- 60000) = Fin (of_int (1700000000 * 1000 - 60000))"
    by (simp_all add: exact_def)
  note w1 = isTokenExpired_iff [where t = "JStr ''a.b.c''" and ar = exact
                               and decode = "\<lambda>t. Some (Fin (of_int 1700000000))"
                               and x = 1700000000 and ?now0.0 = 0 and now = 1699999940000,
                               THEN conjunct2, THEN conjunct1]
  note w2 = isTokenExpired_iff [where t = "JStr ''a.b.c''" and ar = exact
                               and decode = "\<lambda>t. Some (Fin (of_int 1700000000))"
                               and x = 1700000000 and ?now0.0 = 0 and now = 1699999939999,
                               THEN conjunct2, THEN conjunct1]
  have a: "isTokenExpired exact \<lparr> token = JStr ''a.b.c'',
        tokenExpiresAt = parseTokenExpiry exact (\<lambda>t. Some (Fin (of_int 1700000000))) 0 (JStr ''a.b.c'') \<rparr>
        1699999940000"
    using w1 h by simp
  have b: "\<not> isTokenExpired exact \<lparr> token = JStr ''a.b.c'',
        tokenExpiresAt = parseTokenExpiry exact (\<lambda>t. Some (Fin (of_int 1700000000))) 0 (JStr ''a.b.c'') \<rparr>
        1699999939999"
    using w2 h by simp
  show ?thesis using h a b by simp
qed

section \<open>The filter\<close>

lemma if_false_else: "(if c then False else r) = (\<not> c \<and> r)"
  by simp

lemma matches_iff:
  "matches f i \<longleftrightarrow>
     categorical f i
     \<and> \<not> js_lt (m2 i) (fst (m2Range f)) \<and> \<not> js_gt (m2 i) (snd (m2Range f))
     \<and> \<not> js_lt (preco i) (fst (ticketRange f)) \<and> \<not> js_gt (preco i) (snd (ticketRange f))
     \<and> \<not> js_lt (valorM2 i) (fst (valorM2Range f)) \<and> \<not> js_gt (valorM2 i) (snd (valorM2Range f))"
  unfolding matches_def categorical_def if_false_else by blast

lemma default_ranges:
  "m2Range DEFAULT_FILTERS = (Fin 0, Fin 2000)"
  "ticketRange DEFAULT_FILTERS = (Fin 0, Fin 100000000)"
  "valorM2Range DEFAULT_FILTERS = (Fin 0, Fin 100000)"
  by (simp_all add: DEFAULT_FILTERS_def)

lemma default_categorical: "categorical DEFAULT_FILTERS i"
  by (simp add: categorical_def DEFAULT_FILTERS_def)

lemma area_only:
  assumes "transformItem dt (JObj [(''area_privativa'', JStr a)]) i = Inr r" "a \<noteq> []"
  shows "parseFloat (JStr a) = Inr (m2 r)" "preco r = Fin 0" "valorM2 r = Fin 0"
proof -
  have "parseFloat (prop_of (JObj [(''area_privativa'', JStr a)]) ''area_privativa'') = Inr (m2 r)"
    by (rule first_alias(7)[OF assms(1)]) (simp add: assms(2))
  then show "parseFloat (JStr a) = Inr (m2 r)" by simp
  show "preco r = Fin 0"
    by (rule numeric_defaults(6)[OF assms(1)]) (simp add: no_value_def)
  show "valorM2 r = Fin 0"
    by (rule numeric_defaults(8)[OF assms(1)]) (simp add: no_value_def)
qed

lemma area_only_returns: "\<exists>r. transformItem dt (JObj [(''area_privativa'', JStr a)]) i = Inr r"
  by (rule transformItem_returns) simp_all

lemma parseFloat_2500: "parseFloat (JStr ''2500'') = Inr (Fin 2500)"
proof -
  have "dec 2500 = ''2500''" by code_simp
  with parseFloat_str_dec[of 2500] show ?thesis
    by (simp add: parseFloat_def to_string_def)
qed

text \<open>
  Claim C7 as it is stated fails: the record that \<open>transformData\<close> makes of
  \<open>{area_privativa: "abc"}\<close> has the area \<open>NaN\<close>; the untouched filter lets it through,
  and \<open>NaN\<close> is not within \<open>[0, 2000]\<close>.
\<close>

theorem matches_nan_area:
  "case transformItem date_2024 (JObj [(''area_privativa'', JStr ''abc'')]) 0 of
     Inr r \<Rightarrow> m2 r = NaN \<and> matches DEFAULT_FILTERS r \<and> \<not> matches_spec DEFAULT_FILTERS r
   | Inl err \<Rightarrow> False"
proof -
  from area_only_returns obtain r where
    r: "transformItem date_2024 (JObj [(''area_privativa'', JStr ''abc'')]) 0 = Inr r" ..
  from area_only[OF r] have f: "m2 r = NaN" "preco r = Fin 0" "valorM2 r = Fin 0"
    by (simp_all add: parse_non_numeric)
  have "m2 r = NaN \<and> matches DEFAULT_FILTERS r \<and> \<not> matches_spec DEFAULT_FILTERS r"
    by (simp add: matches_iff matches_spec_def default_categorical default_ranges f
          in_range_def js_le_def js_gt_def)
  then show ?thesis by (simp add: r)
qed

text \<open>
  Claim C7, amended: a record matches iff, for each categorical dimension whose selection
  is not empty, the value of the record is in the selection, and, for each of the three
  numeric dimensions, the value is neither less than \<open>min\<close> nor greater than \<open>max\<close>. For a
  value and bounds that are not \<open>NaN\<close> that is to lie within \<open>[min, max]\<close>, bounds included;
  a value that is \<open>NaN\<close> passes every range. All dimensions combine by conjunction.
\<close>

theorem matches_characterisation:
  "(matches f i \<longleftrightarrow>
      (estados f = [] \<or> js_includes (estados f) (estado i))
    \<and> (cidades f = [] \<or> js_includes (cidades f) (cidade i))
    \<and> (bairros f = [] \<or> js_includes (bairros f) (bairro i))
    \<and> (padroes f = [] \<or> js_includes (padroes f) (padrao i))
    \<and> (status_sel f = [] \<or> js_includes (status_sel f) (status i))
    \<and> (tipos f = [] \<or> js_includes (tipos f) (tipo i))
    \<and> (tiposImovel f = [] \<or> js_includes (tiposImovel f) (tipoImovel i))
    \<and> (quartos_sel f = [] \<or> js_includes (quartos_sel f) (JNum (quartos i)))
    \<and> (anosLancamento f = [] \<or> js_includes (anosLancamento f) (JNum (anoLancamento i)))
    \<and> (incorporadoras f = [] \<or> js_includes (incorporadoras f) (incorporadora i))
    \<and> \<not> js_lt (m2 i) (fst (m2Range f)) \<and> \<not> js_gt (m2 i) (snd (m2Range f))
    \<and> \<not> js_lt (preco i) (fst (ticketRange f)) \<and> \<not> js_gt (preco i) (snd (ticketRange f))
    \<and> \<not> js_lt (valorM2 i) (fst (valorM2Range f)) \<and> \<not> js_gt (valorM2 i) (snd (valorM2Range f)))
   \<and> (v \<noteq> NaN \<and> lo \<noteq> NaN \<and> hi \<noteq> NaN \<longrightarrow>
        (\<not> js_lt v lo \<and> \<not> js_gt v hi) = (js_le lo v \<and> js_le v hi))
   \<and> (\<not> js_lt NaN lo \<and> \<not> js_gt NaN hi)"
  using matches_iff [of f i] range_as_in_range [of v "(lo, hi)"]
  by (simp add: categorical_def in_range_def js_gt_def js_lt_NaN_right)

theorem matches_characterisation_witness:
  "(case transformItem date_2024 (JObj [(''cidade'', JStr ''Curitiba'')]) 0 of
      Inr r \<Rightarrow> matches (DEFAULT_FILTERS\<lparr>cidades := [JStr ''Curitiba'']\<rparr>) r
               \<and> \<not> matches (DEFAULT_FILTERS\<lparr>cidades := [JStr ''Londrina'']\<rparr>) r
    | Inl err \<Rightarrow> False)
   \<and> Fin 80 \<noteq> NaN \<and> Fin 0 \<noteq> NaN \<and> Fin 2000 \<noteq> NaN
   \<and> (\<not> js_lt (Fin 80) (Fin 0) \<and> \<not> js_gt (Fin 80) (Fin 2000))
       = (js_le (Fin 0) (Fin 80) \<and> js_le (Fin 80) (Fin 2000))"
proof -
  have "\<exists>r. transformItem date_2024 (JObj [(''cidade'', JStr ''Curitiba'')]) 0 = Inr r"
    by (rule transformItem_returns) simp_all
  then obtain r where r: "transformItem date_2024 (JObj [(''cidade'', JStr ''Curitiba'')]) 0 = Inr r" ..
  have nv: "\<And>ks. ''cidade'' \<notin> set ks \<Longrightarrow> no_value (JObj [(''cidade'', JStr ''Curitiba'')]) ks"
    by (auto simp: no_value_def list_all_iff)
  have n: "m2 r = Fin 0" "preco r = Fin 0" "valorM2 r = Fin 0"
    by (simp_all add: numeric_defaults[OF r] nv)
  have c: "cidade r = JStr ''Curitiba''"
    by (simp add: transformItem_fields(5)[OF r] js_or_def)
  have f: "\<And>x. estados (DEFAULT_FILTERS\<lparr>cidades := x\<rparr>) = []"
    "\<And>x. cidades (DEFAULT_FILTERS\<lparr>cidades := x\<rparr>) = x"
    "\<And>x. bairros (DEFAULT_FILTERS\<lparr>cidades := x\<rparr>) = []"
    "\<And>x. padroes (DEFAULT_FILTERS\<lparr>cidades := x\<rparr>) = []"
    "\<And>x. status_sel (DEFAULT_FILTERS\<lparr>cidades := x\<rparr>) = []"
    "\<And>x. tipos (DEFAULT_FILTERS\<lparr>cidades := x\<rparr>) = []"
    "\<And>x. tiposImovel (DEFAULT_FILTERS\<lparr>cidades := x\<rparr>) = []"
    "\<And>x. quartos_sel (DEFAULT_FILTERS\<lparr>cidades := x\<rparr>) = []"
    "\<And>x. anosLancamento (DEFAULT_FILTERS\<lparr>cidades := x\<rparr>) = []"
    "\<And>x. incorporadoras (DEFAULT_FILTERS\<lparr>cidades := x\<rparr>) = []"
    "\<And>x. m2Range (DEFAULT_FILTERS\<lparr>cidades := x\<rparr>) = (Fin 0, Fin 2000)"
    "\<And>x. ticketRange (DEFAULT_FILTERS\<lparr>cidades := x\<rparr>) = (Fin 0, Fin 100000000)"
    "\<And>x. valorM2Range (DEFAULT_FILTERS\<lparr>cidades := x\<rparr>) = (Fin 0, Fin 100000)"
    by (simp_all add: DEFAULT_FILTERS_def)
  note w1 = matches_characterisation [of "DEFAULT_FILTERS\<lparr>cidades := [JStr ''Curitiba'']\<rparr>" r
                "Fin 80" "Fin 0" "Fin 2000"]
  note w2 = matches_characterisation [of "DEFAULT_FILTERS\<lparr>cidades := [JStr ''Londrina'']\<rparr>" r
                "Fin 80" "Fin 0" "Fin 2000"]
  have a: "matches (DEFAULT_FILTERS\<lparr>cidades := [JStr ''Curitiba'']\<rparr>) r"
    unfolding w1[THEN conjunct1] f n c by (simp add: js_includes_def js_gt_def)
  have b: "\<not> matches (DEFAULT_FILTERS\<lparr>cidades := [JStr ''Londrina'']\<rparr>) r"
    unfolding w2[THEN conjunct1] f n c by (simp add: js_includes_def js_gt_def)
  have d: "(\<not> js_lt (Fin 80) (Fin 0) \<and> \<not> js_gt (Fin 80) (Fin 2000))
       = (js_le (Fin 0) (Fin 80) \<and> js_le (Fin 80) (Fin 2000))"
    using w1[THEN conjunct2, THEN conjunct1] by simp
  show ?thesis using a b d by (simp add: r)
qed

text \<open>
  Claim C10: under the untouched selection the ranges are \<open>[0, 2000]\<close>, \<open>[0, 100000000]\<close>
  and \<open>[0, 100000]\<close>, and a record whose private area exceeds 2000, whose average price
  exceeds 100000000 or whose price per area exceeds 100000, or that is negative in one
  of the three, does not match and is not in the filtered collection.
\<close>

theorem default_filters_exclude:
  assumes "js_gt (m2 i) (Fin 2000) \<or> js_gt (preco i) (Fin 100000000)
           \<or> js_gt (valorM2 i) (Fin 100000)
           \<or> js_lt (m2 i) (Fin 0) \<or> js_lt (preco i) (Fin 0) \<or> js_lt (valorM2 i) (Fin 0)"
  shows "m2Range DEFAULT_FILTERS = (Fin 0, Fin 2000)
         \<and> ticketRange DEFAULT_FILTERS = (Fin 0, Fin 100000000)
         \<and> valorM2Range DEFAULT_FILTERS = (Fin 0, Fin 100000)
         \<and> \<not> matches DEFAULT_FILTERS i
         \<and> i \<notin> set (filteredData DEFAULT_FILTERS rawData)"
proof -
  have "\<not> matches DEFAULT_FILTERS i"
    using assms unfolding matches_iff default_ranges fst_conv snd_conv by blast
  then show ?thesis
    by (simp add: filteredData_def default_ranges)
qed

theorem default_filters_exclude_witness:
  "case transformItem date_2024 (JObj [(''area_privativa'', JStr ''2500'')]) 0 of
     Inr r \<Rightarrow> m2 r = Fin 2500 \<and> js_gt (m2 r) (Fin 2000) \<and> \<not> matches DEFAULT_FILTERS r
              \<and> r \<notin> set (filteredData DEFAULT_FILTERS [r])
   | Inl err \<Rightarrow> False"
proof -
  from area_only_returns obtain r where
    r: "transformItem date_2024 (JObj [(''area_privativa'', JStr ''2500'')]) 0 = Inr r" ..
  from area_only(1)[OF r] have a: "m2 r = Fin 2500"
    by (simp add: parseFloat_2500)
  have b: "js_gt (m2 r) (Fin 2000)"
    by (simp add: a js_gt_def)
  have "\<not> matches DEFAULT_FILTERS r \<and> r \<notin> set (filteredData DEFAULT_FILTERS [r])"
    using b default_filters_exclude [of r "[r]"] by blast
  with a b show ?thesis by (simp add: r)
qed

section \<open>Requests and the paginated retrieval\<close>





lemma login_succeeds:
  assumes "login_res e (logins w) = Response st (Some d)" "ok st"
  shows "\<exists>w'. login e w = (Inr (js_or (token_field d) (access_token_field d)), w')
              \<and> fetches w' = fetches w \<and> logins w' = logins w + 1
              \<and> token w' = js_or (token_field d) (access_token_field d)"
  using assms by (simp add: login_def Let_def)

lemma ensureValidToken_succeeds:
  assumes "\<forall>k. \<exists>st d. login_res e k = Response st (Some d) \<and> ok st"
  shows "\<exists>t w1. ensureValidToken e w = (Inr t, w1) \<and> fetches w1 = fetches w"
proof -
  have "\<exists>t w'. login e w0 = (Inr t, w') \<and> fetches w' = fetches w0" for w0
    using assms login_succeeds[of e w0] by metis
  note lg = this
  show ?thesis
  proof (cases "truthy (token w)")
    case False
    from lg[of w] obtain t w' where "login e w = (Inr t, w')" "fetches w' = fetches w" by blast
    with False show ?thesis by (simp add: ensureValidToken_def)
  next
    case True
    let ?w1 = "w\<lparr>ticks := ticks w + 1\<rparr>"
    from lg[of ?w1] obtain t w' where l: "login e ?w1 = (Inr t, w')" "fetches w' = fetches ?w1" by blast
    show ?thesis
    proof (cases "isTokenExpired (num e) (credential.truncate w) (clock e (ticks w))")
      case e: True
      with True l show ?thesis by (simp add: ensureValidToken_def)
    next
      case e: False
      with True show ?thesis by (simp add: ensureValidToken_def)
    qed
  qed
qed





lemma loop_Stop: "fetchAll_turn e s = Stop r \<Longrightarrow> fetchAll_loop e s = Some r"
  by (subst fetchAll_loop.simps) simp

lemma loop_Continue: "fetchAll_turn e s = Continue s' \<Longrightarrow> fetchAll_loop e s = fetchAll_loop e s'"
  by (subst fetchAll_loop.simps) simp

lemma within_loop: "fetchAll_within e n s = Stop r \<Longrightarrow> fetchAll_loop e s = Some r"
proof (induction n arbitrary: s)
  case 0
  then show ?case by (simp add: loop_Stop)
next
  case (Suc n)
  then show ?case
    by (cases "fetchAll_turn e s") (auto simp: loop_Stop loop_Continue)
qed

lemma loop_within:
  assumes "fetchAll_loop e s = Some r"
  shows "\<exists>n. fetchAll_within e n s = Stop r"
proof (rule fetchAll_loop.raw_induct[OF _ assms], goal_cases)
  case (1 loop e s r)
  show ?case
  proof (cases "fetchAll_turn e s")
    case (Stop r')
    with 1(2) have "fetchAll_within e 0 s = Stop r" by simp
    then show ?thesis ..
  next
    case (Continue s')
    with 1(2) have "loop e s' = Some r" by simp
    from 1(1)[OF this] obtain n where "fetchAll_within e n s' = Stop r" ..
    with Continue have "fetchAll_within e (Suc n) s = Stop r" by simp
    then show ?thesis ..
  qed
qed

lemma request_endless: "\<exists>w'. request env_endless w p 0 = (Inr full_page, w')"
proof -
  have l: "\<forall>k. \<exists>st d. login_res env_endless k = Response st (Some d) \<and> ok st"
    by (simp add: env_endless_def ok_def)
  from ensureValidToken_succeeds[OF l, of w] obtain t w1 where
    ev: "ensureValidToken env_endless w = (Inr t, w1)" by blast
  have pg: "page_res env_endless (fetches w1) = Response 200 (Some full_page)"
    by (simp add: env_endless_def)
  show ?thesis
    using ev pg by (subst request.simps) (simp add: Let_def ok_def)
qed

lemma turn_endless: "\<exists>s'. fetchAll_turn env_endless s = Continue s'"
proof -
  from request_endless[of "svc s" "page s"] obtain w' where
    "request env_endless (svc s) (page s) 0 = (Inr full_page, w')" ..
  then show ?thesis
    by (simp add: fetchAll_turn_def full_page_def perPage_def Let_def)
qed

lemma within_endless: "\<exists>s'. fetchAll_within env_endless n s = Continue s'"
proof (induction n arbitrary: s)
  case 0
  then show ?case by (simp add: turn_endless)
next
  case (Suc n)
  from turn_endless[of s] obtain s' where "fetchAll_turn env_endless s = Continue s'" ..
  with Suc[of s'] show ?case by simp
qed

lemma loop_endless: "fetchAll_loop env_endless s = None"
proof (cases "fetchAll_loop env_endless s")
  case None
  then show ?thesis .
next
  case (Some r)
  from loop_within[OF this] obtain n where "fetchAll_within env_endless n s = Stop r" ..
  with within_endless[of n s] show ?thesis by simp
qed



text \<open>
  Claim C1 as it is stated fails: the retrieval does not end for every sequence of
  pages. With a server whose every page holds 100 records and no \<open>meta\<close>, no turn of the
  loop stops, and \<open>fetchAllEmpreendimentos\<close> does not return.
\<close>

theorem fetchAll_endless:
  "fetchAllEmpreendimentos env_endless initial_service = None"
  by (simp add: fetchAllEmpreendimentos_def loop_endless)

text \<open>
  Claim C1, amended. The retrieval returns iff some turn of its loop stops, and then with
  the result of the first turn that does. A turn stops when the request fails, with its
  error; otherwise it stops with the records so far when the page has no record list or
  an empty one, whatever \<open>meta\<close> and the size of the page before were; otherwise, with
  \<open>meta\<close>, it goes on to the next page iff the page number is less than \<open>last_page\<close>, and
  without \<open>meta\<close> iff the page has exactly 100 records, and where it does not go on it
  stops with the records including those of this page.
\<close>

theorem fetchAll_stops:
  "(fetchAll_loop e s = Some r \<longleftrightarrow> (\<exists>n. fetchAll_within e n s = Stop r))
   \<and> (fetchAll_turn e s = Stop r \<longrightarrow> fetchAll_loop e s = Some r)
   \<and> (fetchAll_turn e s = Continue s' \<longrightarrow> fetchAll_loop e s = fetchAll_loop e s')
   \<and> (request e (svc s) (page s) 0 = (Inl err, w) \<longrightarrow>
        fetchAll_turn e s = Stop (Inl err, s\<lparr>svc := w\<rparr>))
   \<and> (request e (svc s) (page s) 0 = (Inr resp, w) \<and> (data resp = None \<or> data resp = Some []) \<longrightarrow>
        fetchAll_turn e s = Stop (Inr (allData s), s\<lparr>svc := w\<rparr>))
   \<and> (request e (svc s) (page s) 0 = (Inr resp, w) \<and> data resp = Some d \<and> d \<noteq> []
        \<and> meta resp = Some m \<and> js_lt (Fin (of_nat (page s))) (last_page m) \<longrightarrow>
        (\<exists>s'. fetchAll_turn e s = Continue s' \<and> svc s' = w \<and> allData s' = allData s @ d
              \<and> page s' = page s + 1))
   \<and> (request e (svc s) (page s) 0 = (Inr resp, w) \<and> data resp = Some d \<and> d \<noteq> []
        \<and> meta resp = Some m \<and> \<not> js_lt (Fin (of_nat (page s))) (last_page m) \<longrightarrow>
        (\<exists>s'. fetchAll_turn e s = Stop (Inr (allData s @ d), s')))
   \<and> (request e (svc s) (page s) 0 = (Inr resp, w) \<and> data resp = Some d \<and> d \<noteq> []
        \<and> meta resp = None \<and> length d = 100 \<longrightarrow>
        (\<exists>s'. fetchAll_turn e s = Continue s' \<and> svc s' = w \<and> allData s' = allData s @ d
              \<and> page s' = page s + 1))
   \<and> (request e (svc s) (page s) 0 = (Inr resp, w) \<and> data resp = Some d \<and> d \<noteq> []
        \<and> meta resp = None \<and> length d \<noteq> 100 \<longrightarrow>
        (\<exists>s'. fetchAll_turn e s = Stop (Inr (allData s @ d), s')))"
proof -
  have a: "fetchAll_loop e s = Some r \<longleftrightarrow> (\<exists>n. fetchAll_within e n s = Stop r)"
    using loop_within within_loop by blast
  show ?thesis
    apply (intro conjI)
    apply (rule a)
    apply (simp add: loop_Stop)
    apply (simp add: loop_Continue)
    apply (auto simp: fetchAll_turn_def Let_def perPage_def)
    done
qed

theorem fetchAll_stops_witness:
  "fetchAllEmpreendimentos env_two_pages initial_service =
     Some (Inr (replicate 100 (JObj [])),
           \<lparr> svc = \<lparr> token = JStr ''t'', tokenExpiresAt = Fin 3000000, logins = 1, fetches = 2,
                     ticks = 2 \<rparr>,
             allData = replicate 100 (JObj []), page = 2,
             reports = [\<lparr> loaded = 100, total_p = JNum (Fin 100), page_p = 1 \<rparr>] \<rparr>)"
proof -
  let ?s0 = "\<lparr> svc = initial_service, allData = [], page = 1, reports = [] \<rparr>"
  let ?r = "(Inr (replicate 100 (JObj [])),
           \<lparr> svc = \<lparr> token = JStr ''t'', tokenExpiresAt = Fin 3000000, logins = 1, fetches = 2,
                     ticks = 2 \<rparr>,
             allData = replicate 100 (JObj []), page = 2,
             reports = [\<lparr> loaded = 100, total_p = JNum (Fin 100), page_p = 1 \<rparr>] \<rparr>)"
  have w: "fetchAll_within env_two_pages 1 ?s0 = Stop ?r"
    by code_simp
  then have "\<exists>n. fetchAll_within env_two_pages n ?s0 = Stop ?r" ..
  then have "fetchAll_loop env_two_pages ?s0 = Some ?r"
    using fetchAll_stops[of env_two_pages ?s0 ?r, THEN conjunct1] by blast
  then show ?thesis by (simp add: fetchAllEmpreendimentos_def)
qed

section \<open>The grouped series: groups, sums and order\<close>

lemma first_seen_snoc:
  "first_seen (ks @ [k]) = (if k \<in> set (first_seen ks) then first_seen ks else first_seen ks @ [k])"
  by (simp add: first_seen_def)

lemma set_first_seen: "set (first_seen ks) = set ks"
  by (induction ks rule: rev_induct) (auto simp: first_seen_snoc first_seen_def)

lemma distinct_first_seen: "distinct (first_seen ks)"
  by (induction ks rule: rev_induct) (auto simp: first_seen_snoc first_seen_def)

lemma keys_seen_snoc:
  "keys_seen key (rows @ [i]) =
     (if string_of (key i) \<in> set proto_keys \<or> string_of (key i) \<in> set (keys_seen key rows)
      then keys_seen key rows else keys_seen key rows @ [string_of (key i)])"
  by (simp add: keys_seen_def first_seen_snoc)

lemma set_keys_seen:
  "set (keys_seen key rows) = {k. k \<notin> set proto_keys \<and> (\<exists>i \<in> set rows. string_of (key i) = k)}"
  by (auto simp: keys_seen_def set_first_seen)

lemma members_snoc:
  "members key k (rows @ [i]) = (if string_of (key i) = k then members key k rows @ [i] else members key k rows)"
  by (simp add: members_def)

lemma members_empty: "k \<notin> set (keys_seen key rows) \<Longrightarrow> k \<notin> set proto_keys \<Longrightarrow> members key k rows = []"
  by (auto simp: set_keys_seen members_def filter_empty_conv)

lemma members_nonempty: "k \<in> set (keys_seen key rows) \<Longrightarrow> members key k rows \<noteq> []"
  by (auto simp: set_keys_seen members_def filter_empty_conv)

lemma map_of_key_map: "map_of (map (\<lambda>k. (k, f k)) ks) k = (if k \<in> set ks then Some (f k) else None)"
  by (induction ks) auto

lemma update_own_map:
  "update_own k0 h (map (\<lambda>k. (k, f k)) ks) = map (\<lambda>k. (k, if k = k0 then h (f k) else f k)) ks"
  by (simp add: update_own_def)

lemma groups_built:
  "foldl (\<lambda>g i. put_in_group (string_of (key i)) (init i) (add i) g) [] rows
     = map (\<lambda>k. (k, built key init add rows k)) (keys_seen key rows)"
proof (induction rows rule: rev_induct)
  case Nil
  then show ?case by (simp add: keys_seen_def first_seen_def)
next
  case (snoc i rows)
  let ?k0 = "string_of (key i)"
  let ?G = "map (\<lambda>k. (k, built key init add rows k)) (keys_seen key rows)"
  have step: "foldl (\<lambda>g i. put_in_group (string_of (key i)) (init i) (add i) g) [] (rows @ [i])
                = put_in_group ?k0 (init i) (add i) ?G"
    using snoc by simp
  show ?case
  proof (cases "?k0 \<in> set proto_keys")
    case True
    have "built key init add (rows @ [i]) k = built key init add rows k"
      if "k \<in> set (keys_seen key rows)" for k
    proof -
      from that have "k \<noteq> ?k0" using True by (auto simp: set_keys_seen)
      then show ?thesis by (simp add: built_def members_snoc)
    qed
    then show ?thesis
      unfolding step using True by (simp add: put_in_group_def keys_seen_snoc)
  next
    case False
    show ?thesis
    proof (cases "?k0 \<in> set (keys_seen key rows)")
      case seen: True
      have b0: "built key init add (rows @ [i]) ?k0 = add i (built key init add rows ?k0)"
        using members_nonempty[OF seen] by (simp add: built_def members_snoc)
      have b: "built key init add (rows @ [i]) k
                 = (if k = ?k0 then add i (built key init add rows k) else built key init add rows k)" for k
        using b0 by (simp add: built_def members_snoc)
      show ?thesis
        unfolding step using False seen
        by (simp add: put_in_group_def keys_seen_snoc map_of_key_map update_own_map b)
    next
      case new: False
      have m0: "members key ?k0 rows = []" using members_empty[OF new False] .
      have b0: "built key init add (rows @ [i]) ?k0 = add i (init i)"
        by (simp add: built_def members_snoc m0)
      have b: "built key init add (rows @ [i]) k = built key init add rows k"
        if "k \<in> set (keys_seen key rows)" for k
      proof -
        from that new have "k \<noteq> ?k0" by auto
        then show ?thesis by (simp add: built_def members_snoc)
      qed
      have u: "update_own ?k0 (add i) ?G = ?G"
        using new by (auto simp: update_own_def)
      have g1: "put_in_group ?k0 (init i) (add i) ?G = update_own ?k0 (add i) (?G @ [(?k0, init i)])"
        using False new by (simp add: put_in_group_def map_of_key_map Let_def)
      have g2: "update_own ?k0 (add i) (?G @ [(?k0, init i)]) = ?G @ [(?k0, add i (init i))]"
        using u by (simp add: update_own_def)
      have g3: "?G = map (\<lambda>k. (k, built key init add (rows @ [i]) k)) (keys_seen key rows)"
        using b by simp
      have "keys_seen key (rows @ [i]) = keys_seen key rows @ [?k0]"
        using False new by (simp add: keys_seen_snoc)
      then show ?thesis
        unfolding step g1 g2 using g3 b0 by simp
    qed
  qed
qed

lemma forEach_snoc: "forEach f s (xs @ [x]) = bind_e (forEach f s xs) (\<lambda>s'. f s' x)"
  by (simp add: forEach_def)

lemma forEach_group_step:
  "forEach (group_step key init add) g rows =
     (if \<exists>i \<in> set rows. throws (key i) then Inl TypeError
      else Inr (foldl (\<lambda>g i. put_in_group (string_of (key i)) (init i) (add i) g) g rows))"
proof (induction rows rule: rev_induct)
  case Nil
  then show ?case by (simp add: forEach_def)
next
  case (snoc i rows)
  then show ?case
    by (simp add: forEach_snoc group_step_def to_string_def)
qed

lemma groups_forEach:
  "forEach (group_step key init add) [] rows =
     (if \<exists>i \<in> set rows. throws (key i) then Inl TypeError
      else Inr (map (\<lambda>k. (k, built key init add rows k)) (keys_seen key rows)))"
  by (simp only: forEach_group_step groups_built)

lemma fold_add_to_group:
  "foldl (\<lambda>gr i. add_to_group ar i gr) gr0 ms =
     \<lparr> g_label = g_label gr0,
       g_vgvTotal = foldl (\<lambda>a i. js_add ar a (num_or (vgvTotal i) (Fin 0))) (g_vgvTotal gr0) ms,
       g_vgvVendido = foldl (\<lambda>a i. js_add ar a (num_or (vgvVendido i) (Fin 0))) (g_vgvVendido gr0) ms \<rparr>"
  by (induction ms arbitrary: gr0) (simp_all add: add_to_group_def)

lemma built_group:
  "built key (\<lambda>i. new_group (key i)) (add_to_group ar) rows k = group_of ar key rows k"
  by (simp add: built_def fold_add_to_group group_of_def sum_of_def new_group_def)

lemma fold_add_tipo:
  "foldl (\<lambda>gr i. add_to_tipo ar i gr) gr0 ms =
     \<lparr> t_tipo = t_tipo gr0,
       t_vgvTotal = foldl (\<lambda>a i. js_add ar a (num_or (vgvTotal i) (Fin 0))) (t_vgvTotal gr0) ms \<rparr>"
  by (induction ms arbitrary: gr0) (simp_all add: add_to_tipo_def)

lemma built_tipo:
  "built tipo (\<lambda>i. \<lparr> t_tipo = tipo i, t_vgvTotal = Fin 0 \<rparr>) (add_to_tipo ar) rows k
   = tipo_group_of ar rows k"
  by (simp add: built_def fold_add_tipo tipo_group_of_def sum_of_def)

lemma groups_cidade_eq:
  "groups_cidade ar rows =
     (if \<exists>i \<in> set rows. throws (cidade i) then Inl TypeError
      else Inr (map (\<lambda>k. (k, group_of ar cidade rows k)) (keys_seen cidade rows)))"
  by (simp add: groups_cidade_def groups_forEach built_group)

lemma groups_padrao_eq:
  "groups_padrao ar rows =
     (if \<exists>i \<in> set rows. throws (padrao i) then Inl TypeError
      else Inr (map (\<lambda>k. (k, group_of ar padrao rows k)) (keys_seen padrao rows)))"
  by (simp add: groups_padrao_def groups_forEach built_group)

lemma groups_tipo_eq:
  "groups_tipo ar rows =
     (if \<exists>i \<in> set rows. throws (tipo i) then Inl TypeError
      else Inr (map (\<lambda>k. (k, tipo_group_of ar rows k)) (keys_seen tipo rows)))"
  by (simp add: groups_tipo_def groups_forEach built_tipo)

lemma object_values_plain:
  assumes "\<forall>k \<in> set ks. \<not> is_array_index k"
  shows "object_values (map (\<lambda>k. (k, f k)) ks) = map f ks"
proof -
  have a: "filter (\<lambda>(k, v). is_array_index k) (map (\<lambda>k. (k, f k)) ks) = []"
    using assms by (auto simp: filter_empty_conv)
  have b: "filter (\<lambda>(k, v). \<not> is_array_index k) (map (\<lambda>k. (k, f k)) ks) = map (\<lambda>k. (k, f k)) ks"
    using assms by (auto simp: filter_id_conv)
  show ?thesis by (simp add: object_values_def a b comp_def)
qed

lemma keys_plain:
  assumes "\<forall>i \<in> set rows. \<not> is_array_index (string_of (key i))"
  shows "\<forall>k \<in> set (keys_seen key rows). \<not> is_array_index k"
  using assms by (auto simp: set_keys_seen)

lemma fold_add_exact:
  assumes "\<forall>i \<in> set ms. field i \<noteq> PInf \<and> field i \<noteq> NInf"
  shows "\<exists>r. foldl (\<lambda>a i. js_add exact a (num_or (field i) (Fin 0))) (Fin x) ms = Fin r"
  using assms
proof (induction ms arbitrary: x)
  case Nil
  then show ?case by simp
next
  case (Cons i ms)
  from Cons.prems have "\<exists>y. num_or (field i) (Fin 0) = Fin y"
    by (cases "field i") (auto simp: num_or_def)
  then obtain y where "num_or (field i) (Fin 0) = Fin y" ..
  with Cons show ?case by (simp add: exact_def)
qed

lemma sum_of_exact:
  assumes "\<forall>i \<in> set rows. field i \<noteq> PInf \<and> field i \<noteq> NInf"
  shows "\<exists>r. sum_of exact field (members key k rows) = Fin r"
  unfolding sum_of_def
  by (rule fold_add_exact) (use assms in \<open>auto simp: members_def\<close>)

lemma insort_cmp_key:
  assumes "\<forall>y \<in> set (x # ys). \<exists>r. g_vgvTotal y = Fin r"
    and sg: "\<forall>a b. js_gt (fadd ar b (- a)) (Fin 0) = (a < b)"
  shows "insort_cmp (by_total ar) x ys = insort_key (\<lambda>g. - fin_value (g_vgvTotal g)) x ys"
  using assms(1)
proof (induction ys)
  case Nil
  then show ?case by simp
next
  case (Cons y ys)
  from Cons.prems obtain a b where ab: "g_vgvTotal x = Fin a" "g_vgvTotal y = Fin b" by auto
  have c: "js_gt (by_total ar x y) (Fin 0) \<longleftrightarrow> \<not> (- a \<le> - b)"
    using sg by (auto simp: by_total_def js_sub_def ab)
  from Cons have "insort_cmp (by_total ar) x ys = insort_key (\<lambda>g. - fin_value (g_vgvTotal g)) x ys"
    by simp
  then show ?case using c by (simp add: ab)
qed

lemma js_sort_key:
  assumes "\<forall>y \<in> set xs. \<exists>r. g_vgvTotal y = Fin r"
    and sg: "\<forall>a b. js_gt (fadd ar b (- a)) (Fin 0) = (a < b)"
  shows "js_sort (by_total ar) xs = sort_key (\<lambda>g. - fin_value (g_vgvTotal g)) xs"
  using assms(1)
proof (induction xs)
  case Nil
  then show ?case by (simp add: js_sort_def)
next
  case (Cons x xs)
  then have ih: "js_sort (by_total ar) xs = sort_key (\<lambda>g. - fin_value (g_vgvTotal g)) xs" by simp
  have "\<forall>y \<in> set (x # sort_key (\<lambda>g. - fin_value (g_vgvTotal g)) xs). \<exists>r. g_vgvTotal y = Fin r"
    using Cons.prems by simp
  from insort_cmp_key[OF this sg] ih show ?case
    by (simp add: js_sort_def)
qed

lemma descending:
  assumes "\<forall>y \<in> set xs. \<exists>r. g_vgvTotal y = Fin r"
  shows "sorted_wrt (\<lambda>a b. js_ge (g_vgvTotal a) (g_vgvTotal b)) (sort_key (\<lambda>g. - fin_value (g_vgvTotal g)) xs)"
proof -
  let ?f = "\<lambda>g. - fin_value (g_vgvTotal g)"
  have s: "sorted_wrt (\<lambda>a b. ?f a \<le> ?f b) (sort_key ?f xs)"
    using sorted_sort_key[of ?f xs] by (simp add: sorted_map)
  have m: "js_ge (g_vgvTotal a) (g_vgvTotal b)"
    if "a \<in> set (sort_key ?f xs)" "b \<in> set (sort_key ?f xs)" and le: "?f a \<le> ?f b" for a b
  proof -
    from that have "\<exists>x. g_vgvTotal a = Fin x" "\<exists>y. g_vgvTotal b = Fin y" using assms by simp_all
    then obtain x y where "g_vgvTotal a = Fin x" "g_vgvTotal b = Fin y" by blast
    with le show ?thesis by (simp add: js_ge_def)
  qed
  show ?thesis by (rule sorted_wrt_mono_rel[OF m s])
qed

lemma stable:
  assumes "\<forall>y \<in> set (xs :: group list). \<exists>r. g_vgvTotal y = Fin r"
  shows "filter (\<lambda>g. g_vgvTotal g = t) (sort_key (\<lambda>g. - fin_value (g_vgvTotal g)) xs)
           = filter (\<lambda>g. g_vgvTotal g = t) xs"
proof (cases "\<exists>r. t = Fin r")
  case True
  then obtain r where Fin: "t = Fin r" ..
  have "filter (\<lambda>g. g_vgvTotal g = t) ys = filter (\<lambda>g. - fin_value (g_vgvTotal g) = - r) ys"
    if "\<forall>y \<in> set ys. \<exists>r. g_vgvTotal y = Fin r" for ys :: "group list"
    using that Fin by (intro filter_cong) auto
  from this[of xs] this[of "sort_key (\<lambda>g. - fin_value (g_vgvTotal g)) xs"] assms
    sort_key_stable[of "\<lambda>g. - fin_value (g_vgvTotal g)" "- r" xs]
  show ?thesis by simp
next
  case False
  have "filter (\<lambda>g. g_vgvTotal g = t) ys = []"
    if "\<forall>y \<in> set ys. \<exists>r. g_vgvTotal y = Fin r" for ys :: "group list"
    using that False by (auto simp: filter_empty_conv)
  from this[of xs] this[of "sort_key (\<lambda>g. - fin_value (g_vgvTotal g)) xs"] assms
  show ?thesis by simp
qed


lemma sample_normalized:
  "transformItem date_2024
     (JObj [(''cidade'', JStr ''A''), (''tipo'', JStr ''x''), (''vgv_total'', JNum (Fin 100))]) 0
   = Inr (sample ''A'' ''x'' 100)"
  using parseInt_nat[of 2024] parseFloat_nat[of 100]
  by (simp add: transformItem_def sample_def js_or_def parse_defaults date_2024_def)

lemma scenario_cidade:
  "vgvPorCidade exact [sample ''A'' ''x'' 100, sample ''A'' ''y'' 50, sample ''B'' ''x'' 30]
     = Inr [\<lparr> g_label = JStr ''A'', g_vgvTotal = Fin 150, g_vgvVendido = Fin 0 \<rparr>,
            \<lparr> g_label = JStr ''B'', g_vgvTotal = Fin 30, g_vgvVendido = Fin 0 \<rparr>]"
  by code_simp

lemma scenario_tipo:
  "vgvPorTipo exact [sample ''A'' ''x'' 100, sample ''A'' ''y'' 150, sample ''B'' ''x'' 30]
     = Inr [\<lparr> t_tipo = JStr ''x'', t_vgvTotal = Fin 130 \<rparr>, \<lparr> t_tipo = JStr ''y'', t_vgvTotal = Fin 150 \<rparr>]"
  by code_simp

text \<open>
  Claim C8 as it is stated fails for the series by type, which is not sorted: of three
  records with the types \<open>x\<close>, \<open>y\<close>, \<open>x\<close> and the launched values 100, 150, 30 it is the group
  of \<open>x\<close> with 130 before the group of \<open>y\<close> with 150.
\<close>

theorem vgvPorTipo_unsorted:
  "case vgvPorTipo exact [sample ''A'' ''x'' 100, sample ''A'' ''y'' 150, sample ''B'' ''x'' 30] of
     Inr gs \<Rightarrow>
       gs = [\<lparr> t_tipo = JStr ''x'', t_vgvTotal = Fin 130 \<rparr>, \<lparr> t_tipo = JStr ''y'', t_vgvTotal = Fin 150 \<rparr>]
       \<and> \<not> sorted_wrt (\<lambda>a b. js_ge (t_vgvTotal a) (t_vgvTotal b)) gs
   | Inl err \<Rightarrow> False"
  by (simp add: scenario_tipo js_ge_def)

text \<open>
  Claim C8, amended. A series fails with a \<open>TypeError\<close> when the value of its dimension in
  some record has no string (an object with a \<open>toString\<close> property of its own, or an array
  holding one). Otherwise it groups the records by the string of the value of its
  dimension, a record whose string is the name of an inherited property of objects
  (\<open>constructor\<close>, \<open>toString\<close>, ...) being in no group; a group holds the value of its first
  record and the sums of the launched values (and, by city and by tier, of the sold values)
  of its records, added from 0 in the order of the records with the floating-point addition
  of the runtime, \<open>NaN\<close> and absent values counting as 0. Take records with no city, type or
  tier whose string is an array index: then there is one group for each key, in the order
  in which the keys are first met, and the series by type is that list, neither sorted nor
  cut. Where moreover every launched total is finite, the series by city and by tier sort
  their groups descending by the launched total, ties staying in the order in which they
  were first met, and keep the first 8. (The order relies on the subtraction of the
  comparison function being positive exactly when its first operand is the greater, as the
  subtraction of IEEE arithmetic is.) The records \<open>A\<close> 100, \<open>A\<close> 50, \<open>B\<close> 30 group by city to
  \<open>A\<close> 150, \<open>B\<close> 30.
\<close>

theorem grouped_series:
  assumes plain: "\<forall>i \<in> set rows. \<not> is_array_index (string_of (cidade i))
                  \<and> \<not> is_array_index (string_of (tipo i)) \<and> \<not> is_array_index (string_of (padrao i))"
    and fin: "\<forall>k \<in> set (keys_seen cidade rows). \<exists>r. sum_of ar vgvTotal (members cidade k rows) = Fin r"
             "\<forall>k \<in> set (keys_seen padrao rows). \<exists>r. sum_of ar vgvTotal (members padrao k rows) = Fin r"
    and sign: "\<forall>a b. js_gt (fadd ar b (- a)) (Fin 0) = (a < b)"
  shows "vgvPorCidade ar rows
           = (if \<exists>i \<in> set rows. throws (cidade i) then Inl TypeError
              else Inr (take 8 (sort_key (\<lambda>g. - fin_value (g_vgvTotal g))
                                  (map (group_of ar cidade rows) (keys_seen cidade rows)))))
     \<and> vgvPorPadrao ar rows
           = (if \<exists>i \<in> set rows. throws (padrao i) then Inl TypeError
              else Inr (take 8 (sort_key (\<lambda>g. - fin_value (g_vgvTotal g))
                                  (map (group_of ar padrao rows) (keys_seen padrao rows)))))
     \<and> vgvPorTipo ar rows
           = (if \<exists>i \<in> set rows. throws (tipo i) then Inl TypeError
              else Inr (map (tipo_group_of ar rows) (keys_seen tipo rows)))
     \<and> set (keys_seen key rows)
           = {k. k \<notin> set proto_keys \<and> (\<exists>i \<in> set rows. string_of (key i) = k)}
     \<and> distinct (keys_seen key rows)
     \<and> (vgvPorCidade ar rows = Inr gs \<longrightarrow>
          sorted_wrt (\<lambda>a b. js_ge (g_vgvTotal a) (g_vgvTotal b)) gs
          \<and> length gs = min 8 (length (keys_seen cidade rows)))
     \<and> (vgvPorPadrao ar rows = Inr gs \<longrightarrow>
          sorted_wrt (\<lambda>a b. js_ge (g_vgvTotal a) (g_vgvTotal b)) gs
          \<and> length gs = min 8 (length (keys_seen padrao rows)))
     \<and> (vgvPorTipo ar rows = Inr ts \<longrightarrow> length ts = length (keys_seen tipo rows))
     \<and> filter (\<lambda>g. g_vgvTotal g = t)
          (sort_key (\<lambda>g. - fin_value (g_vgvTotal g)) (map (group_of ar cidade rows) (keys_seen cidade rows)))
         = filter (\<lambda>g. g_vgvTotal g = t) (map (group_of ar cidade rows) (keys_seen cidade rows))
     \<and> filter (\<lambda>g. g_vgvTotal g = t)
          (sort_key (\<lambda>g. - fin_value (g_vgvTotal g)) (map (group_of ar padrao rows) (keys_seen padrao rows)))
         = filter (\<lambda>g. g_vgvTotal g = t) (map (group_of ar padrao rows) (keys_seen padrao rows))
     \<and> vgvPorCidade exact [sample ''A'' ''x'' 100, sample ''A'' ''y'' 50, sample ''B'' ''x'' 30]
         = Inr [\<lparr> g_label = JStr ''A'', g_vgvTotal = Fin 150, g_vgvVendido = Fin 0 \<rparr>,
                \<lparr> g_label = JStr ''B'', g_vgvTotal = Fin 30, g_vgvVendido = Fin 0 \<rparr>]"
proof -
  let ?f = "\<lambda>g. - fin_value (g_vgvTotal g)"
  let ?gc = "map (group_of ar cidade rows) (keys_seen cidade rows)"
  let ?gp = "map (group_of ar padrao rows) (keys_seen padrao rows)"
  let ?gt = "map (tipo_group_of ar rows) (keys_seen tipo rows)"
  have fc: "\<forall>y \<in> set ?gc. \<exists>r. g_vgvTotal y = Fin r"
    using fin(1) by (auto simp: group_of_def)
  have fp: "\<forall>y \<in> set ?gp. \<exists>r. g_vgvTotal y = Fin r"
    using fin(2) by (auto simp: group_of_def)
  have oc: "object_values (map (\<lambda>k. (k, group_of ar cidade rows k)) (keys_seen cidade rows)) = ?gc"
    by (rule object_values_plain, rule keys_plain) (use plain in simp)
  have op: "object_values (map (\<lambda>k. (k, group_of ar padrao rows k)) (keys_seen padrao rows)) = ?gp"
    by (rule object_values_plain, rule keys_plain) (use plain in simp)
  have ot: "object_values (map (\<lambda>k. (k, tipo_group_of ar rows k)) (keys_seen tipo rows)) = ?gt"
    by (rule object_values_plain, rule keys_plain) (use plain in simp)
  have c: "vgvPorCidade ar rows
           = (if \<exists>i \<in> set rows. throws (cidade i) then Inl TypeError
              else Inr (take 8 (sort_key ?f ?gc)))"
    by (simp add: vgvPorCidade_def groups_cidade_eq oc js_sort_key[OF fc sign])
  have p: "vgvPorPadrao ar rows
           = (if \<exists>i \<in> set rows. throws (padrao i) then Inl TypeError
              else Inr (take 8 (sort_key ?f ?gp)))"
    by (simp add: vgvPorPadrao_def groups_padrao_eq op js_sort_key[OF fp sign])
  have t: "vgvPorTipo ar rows
           = (if \<exists>i \<in> set rows. throws (tipo i) then Inl TypeError else Inr ?gt)"
    by (simp add: vgvPorTipo_def groups_tipo_eq ot)
  have sc: "sorted_wrt (\<lambda>a b. js_ge (g_vgvTotal a) (g_vgvTotal b)) (take 8 (sort_key ?f ?gc))"
    by (rule sorted_wrt_take, rule descending[OF fc])
  have sp: "sorted_wrt (\<lambda>a b. js_ge (g_vgvTotal a) (g_vgvTotal b)) (take 8 (sort_key ?f ?gp))"
    by (rule sorted_wrt_take, rule descending[OF fp])
  have rc: "vgvPorCidade ar rows = Inr gs \<longrightarrow>
          sorted_wrt (\<lambda>a b. js_ge (g_vgvTotal a) (g_vgvTotal b)) gs
          \<and> length gs = min 8 (length (keys_seen cidade rows))"
  proof
    assume "vgvPorCidade ar rows = Inr gs"
    with c have "gs = take 8 (sort_key ?f ?gc)" by (simp split: if_splits)
    with sc show "sorted_wrt (\<lambda>a b. js_ge (g_vgvTotal a) (g_vgvTotal b)) gs
          \<and> length gs = min 8 (length (keys_seen cidade rows))"
      by (simp add: min.commute)
  qed
  have rp: "vgvPorPadrao ar rows = Inr gs \<longrightarrow>
          sorted_wrt (\<lambda>a b. js_ge (g_vgvTotal a) (g_vgvTotal b)) gs
          \<and> length gs = min 8 (length (keys_seen padrao rows))"
  proof
    assume "vgvPorPadrao ar rows = Inr gs"
    with p have "gs = take 8 (sort_key ?f ?gp)" by (simp split: if_splits)
    with sp show "sorted_wrt (\<lambda>a b. js_ge (g_vgvTotal a) (g_vgvTotal b)) gs
          \<and> length gs = min 8 (length (keys_seen padrao rows))"
      by (simp add: min.commute)
  qed
  have rt: "vgvPorTipo ar rows = Inr ts \<longrightarrow> length ts = length (keys_seen tipo rows)"
    using t by (auto split: if_splits)
  have d: "distinct (keys_seen key rows)"
    by (simp add: keys_seen_def distinct_first_seen)
  show ?thesis
    by (intro conjI c p t set_keys_seen d rc rp rt stable[OF fc] stable[OF fp] scenario_cidade)
qed

theorem grouped_series_witness:
  "(case vgvPorCidade exact [sample ''A'' ''x'' 100, sample ''A'' ''y'' 50, sample ''B'' ''x'' 30] of
      Inr gs \<Rightarrow> sorted_wrt (\<lambda>a b. js_ge (g_vgvTotal a) (g_vgvTotal b)) gs \<and> length gs = 2
    | Inl err \<Rightarrow> False)
   \<and> (case vgvPorTipo exact [sample ''A'' ''x'' 100, sample ''A'' ''y'' 50, sample ''B'' ''x'' 30] of
        Inr ts \<Rightarrow> length ts = 2
      | Inl err \<Rightarrow> False)"
proof -
  let ?rows = "[sample ''A'' ''x'' 100, sample ''A'' ''y'' 50, sample ''B'' ''x'' 30]"
  have fin0: "\<forall>i \<in> set ?rows. vgvTotal i \<noteq> PInf \<and> vgvTotal i \<noteq> NInf"
    by (simp add: sample_def)
  have fin: "\<forall>k \<in> set (keys_seen cidade ?rows). \<exists>r. sum_of exact vgvTotal (members cidade k ?rows) = Fin r"
    "\<forall>k \<in> set (keys_seen padrao ?rows). \<exists>r. sum_of exact vgvTotal (members padrao k ?rows) = Fin r"
    using sum_of_exact[OF fin0] by blast+
  have plain: "\<forall>i \<in> set ?rows. \<not> is_array_index (string_of (cidade i))
                  \<and> \<not> is_array_index (string_of (tipo i)) \<and> \<not> is_array_index (string_of (padrao i))"
    by (simp add: sample_def is_array_index_def is_digit_def)
  have sign: "\<forall>a b. js_gt (fadd exact b (- a)) (Fin 0) = (a < b)"
    by (simp add: exact_def js_gt_def)
  have nt: "\<not> (\<exists>i \<in> set ?rows. throws (cidade i))" "\<not> (\<exists>i \<in> set ?rows. throws (tipo i))"
    by (simp_all add: sample_def)
  have kc: "length (keys_seen cidade ?rows) = 2" "length (keys_seen tipo ?rows) = 2"
    by (simp_all add: keys_seen_def first_seen_def sample_def proto_keys_def)
  note w = grouped_series[OF plain fin sign, where key = cidade]
  from w[THEN conjunct1] nt(1) obtain gs where
    gs: "vgvPorCidade exact ?rows = Inr gs" by simp
  from w[THEN conjunct2, THEN conjunct2, THEN conjunct1] nt(2) obtain ts where
    ts: "vgvPorTipo exact ?rows = Inr ts" by simp
  note w1 = grouped_series[OF plain fin sign, where key = cidade and gs = gs and ts = ts]
  have a: "sorted_wrt (\<lambda>a b. js_ge (g_vgvTotal a) (g_vgvTotal b)) gs \<and> length gs = 2"
    using w1[THEN conjunct2, THEN conjunct2, THEN conjunct2, THEN conjunct2, THEN conjunct2,
             THEN conjunct1] gs kc(1)
    by simp
  have b: "length ts = 2"
    using w1[THEN conjunct2, THEN conjunct2, THEN conjunct2, THEN conjunct2, THEN conjunct2,
             THEN conjunct2, THEN conjunct2, THEN conjunct1] ts kc(2)
    by simp
  show ?thesis using a b by (simp add: gs ts)
qed

section \<open>Concurrent callers of login: one request for all\<close>

lemma calls_in_flight:
  assumes "refreshPromise s = Some p"
  shows "foldl (login_step ar decode now) s (map Call cs)
           = s\<lparr> holders := holders s @ map (\<lambda>c. (c, p)) cs \<rparr>"
  using assms
proof (induction cs arbitrary: s)
  case Nil
  then show ?case by simp
next
  case (Cons c cs)
  have "login_step ar decode now s (Call c) = s\<lparr> holders := holders s @ [(c, p)] \<rparr>"
    using Cons.prems by (simp add: login_step_def)
  moreover have "refreshPromise (s\<lparr> holders := holders s @ [(c, p)] \<rparr>) = Some p"
    using Cons.prems by simp
  ultimately show ?case using Cons.IH by simp
qed

lemma first_call:
  assumes "refreshPromise s = None"
  shows "login_step ar decode now s (Call c)
           = s\<lparr> refreshPromise := Some (network_logins s), phase := AwaitFetch,
                network_logins := network_logins s + 1,
                holders := holders s @ [(c, network_logins s)] \<rparr>"
  using assms by (simp add: login_step_def)

lemma calls_from_idle:
  assumes "refreshPromise s = None"
  shows "foldl (login_step ar decode now) s (map Call (c # cs))
           = s\<lparr> refreshPromise := Some (network_logins s), phase := AwaitFetch,
                network_logins := network_logins s + 1,
                holders := holders s @ map (\<lambda>c. (c, network_logins s)) (c # cs) \<rparr>"
proof -
  let ?s1 = "login_step ar decode now s (Call c)"
  have p: "refreshPromise ?s1 = Some (network_logins s)"
    by (simp add: first_call[OF assms])
  show ?thesis
    using calls_in_flight[OF p, of ar decode now cs] by (simp add: first_call[OF assms])
qed

lemma response_ok:
  assumes "refreshPromise s = Some p" "phase s = AwaitFetch" "ok st"
  shows "login_step ar decode now s (Arrive (Some st)) = s\<lparr> phase := AwaitJson \<rparr>"
  using assms by (simp add: login_step_def)

lemma body_parsed:
  assumes "refreshPromise s = Some p" "phase s = AwaitJson"
  shows "login_step ar decode now s (Body (Some d))
           = s\<lparr> token := js_or (token_field d) (access_token_field d),
                tokenExpiresAt := parseTokenExpiry ar decode now
                                    (js_or (token_field d) (access_token_field d)),
                refreshPromise := None,
                outcomes := outcomes s @ [(p, Inr (js_or (token_field d) (access_token_field d)))] \<rparr>"
  using assms by (simp add: login_step_def Let_def)

lemma attempt_fails:
  assumes "refreshPromise s = Some p"
  shows "phase s = AwaitFetch \<Longrightarrow>
           login_step ar decode now s (Arrive None)
             = s\<lparr> refreshPromise := None, outcomes := outcomes s @ [(p, Inl NetworkError)] \<rparr>"
    "phase s = AwaitFetch \<Longrightarrow> \<not> ok st \<Longrightarrow>
           login_step ar decode now s (Arrive (Some st))
             = s\<lparr> refreshPromise := None, outcomes := outcomes s @ [(p, Inl (LoginFailed st))] \<rparr>"
    "phase s = AwaitJson \<Longrightarrow>
           login_step ar decode now s (Body None)
             = s\<lparr> refreshPromise := None, outcomes := outcomes s @ [(p, Inl SyntaxError)] \<rparr>"
  using assms by (simp_all add: login_step_def rejected_def)

lemma run_success:
  assumes idle: "refreshPromise s = None" and ok: "ok st"
  shows "foldl (login_step ar decode now) s
           (map Call (c # cs) @ [Arrive (Some st)] @ map Call cs' @ [Body (Some d)])
         = s\<lparr> token := js_or (token_field d) (access_token_field d),
              tokenExpiresAt := parseTokenExpiry ar decode now
                                  (js_or (token_field d) (access_token_field d)),
              refreshPromise := None, phase := AwaitJson,
              network_logins := network_logins s + 1,
              holders := holders s @ map (\<lambda>c. (c, network_logins s)) (c # cs @ cs'),
              outcomes := outcomes s
                @ [(network_logins s, Inr (js_or (token_field d) (access_token_field d)))] \<rparr>"
proof -
  let ?n = "network_logins s"
  let ?st = "login_step ar decode now"
  let ?s2 = "foldl ?st s (map Call (c # cs))"
  have s2: "?s2 = s\<lparr> refreshPromise := Some ?n, phase := AwaitFetch, network_logins := ?n + 1,
                     holders := holders s @ map (\<lambda>c. (c, ?n)) (c # cs) \<rparr>"
    by (rule calls_from_idle[OF idle])
  have p2: "refreshPromise ?s2 = Some ?n" "phase ?s2 = AwaitFetch" unfolding s2 by simp_all
  let ?s3 = "?st ?s2 (Arrive (Some st))"
  have s3: "?s3 = ?s2\<lparr> phase := AwaitJson \<rparr>"
    by (rule response_ok[OF p2 ok])
  have p3: "refreshPromise ?s3 = Some ?n" unfolding s3 unfolding s2 by simp
  let ?s4 = "foldl ?st ?s3 (map Call cs')"
  have s4: "?s4 = ?s3\<lparr> holders := holders ?s3 @ map (\<lambda>c. (c, ?n)) cs' \<rparr>"
    by (rule calls_in_flight[OF p3])
  have p4: "refreshPromise ?s4 = Some ?n" "phase ?s4 = AwaitJson"
    unfolding s4 unfolding s3 unfolding s2 by simp_all
  have s5: "?st ?s4 (Body (Some d))
           = ?s4\<lparr> token := js_or (token_field d) (access_token_field d),
                tokenExpiresAt := parseTokenExpiry ar decode now
                                    (js_or (token_field d) (access_token_field d)),
                refreshPromise := None,
                outcomes := outcomes ?s4 @ [(?n, Inr (js_or (token_field d) (access_token_field d)))] \<rparr>"
    by (rule body_parsed[OF p4])
  have "foldl ?st s (map Call (c # cs) @ [Arrive (Some st)] @ map Call cs' @ [Body (Some d)])
          = ?st ?s4 (Body (Some d))"
    by (simp only: foldl_append foldl_Cons foldl_Nil)
  also have "\<dots> = s\<lparr> token := js_or (token_field d) (access_token_field d),
              tokenExpiresAt := parseTokenExpiry ar decode now
                                  (js_or (token_field d) (access_token_field d)),
              refreshPromise := None, phase := AwaitJson,
              network_logins := network_logins s + 1,
              holders := holders s @ map (\<lambda>c. (c, network_logins s)) (c # cs @ cs'),
              outcomes := outcomes s
                @ [(network_logins s, Inr (js_or (token_field d) (access_token_field d)))] \<rparr>"
    unfolding s5 unfolding s4 unfolding s3 unfolding s2 by simp
  finally show ?thesis .
qed

lemma run_failure:
  assumes idle: "refreshPromise s = None" and nok: "\<not> ok st"
  shows "foldl (login_step ar decode now) s (map Call (c # cs) @ [Arrive (Some st)])
         = s\<lparr> refreshPromise := None, phase := AwaitFetch,
              network_logins := network_logins s + 1,
              holders := holders s @ map (\<lambda>c. (c, network_logins s)) (c # cs),
              outcomes := outcomes s @ [(network_logins s, Inl (LoginFailed st))] \<rparr>"
proof -
  let ?n = "network_logins s"
  let ?st = "login_step ar decode now"
  let ?s2 = "foldl ?st s (map Call (c # cs))"
  have s2: "?s2 = s\<lparr> refreshPromise := Some ?n, phase := AwaitFetch, network_logins := ?n + 1,
                     holders := holders s @ map (\<lambda>c. (c, ?n)) (c # cs) \<rparr>"
    by (rule calls_from_idle[OF idle])
  have p2: "refreshPromise ?s2 = Some ?n" "phase ?s2 = AwaitFetch" unfolding s2 by simp_all
  have s3: "?st ?s2 (Arrive (Some st))
              = ?s2\<lparr> refreshPromise := None, outcomes := outcomes ?s2 @ [(?n, Inl (LoginFailed st))] \<rparr>"
    by (rule attempt_fails(2)[OF p2 nok])
  have "foldl ?st s (map Call (c # cs) @ [Arrive (Some st)]) = ?st ?s2 (Arrive (Some st))"
    by (simp only: foldl_append foldl_Cons foldl_Nil)
  also have "\<dots> = s\<lparr> refreshPromise := None, phase := AwaitFetch,
              network_logins := network_logins s + 1,
              holders := holders s @ map (\<lambda>c. (c, network_logins s)) (c # cs),
              outcomes := outcomes s @ [(network_logins s, Inl (LoginFailed st))] \<rparr>"
    unfolding s3 unfolding s2 by simp
  finally show ?thesis .
qed

lemma not_settled:
  "refreshPromise s = Some p \<and> \<not> settles s ev \<longrightarrow>
      refreshPromise (login_step ar decode now s ev) = Some p
      \<and> outcomes (login_step ar decode now s ev) = outcomes s
      \<and> token (login_step ar decode now s ev) = token s"
  by (auto simp: settles_def login_step_def rejected_def Let_def split: event.splits option.splits)

text \<open>
  Claim C3. While a refresh is in flight, calls of \<open>login\<close> by any callers make no login
  request, leave the marker as it is and all return the pending promise. From a state
  with no refresh in flight, any number of calls, before the response and between the
  response and its body, make exactly one login request; when the body arrives, the token
  it holds is stored, the marker is cleared, and the one promise that every caller holds
  is fulfilled with that token, so that all callers observe the same token. When the
  attempt fails instead (no response, a status that is not ok, or a body that does not
  parse), the marker is cleared as well and the one promise is rejected with that error,
  the stored token staying as it was; and once the marker is cleared the next call starts
  a new attempt with a new login request. The marker is cleared by the event that ends the
  attempt and by no other: an ok response only moves the attempt on to reading the body.
\<close>

theorem login_dedup:
  "(refreshPromise s = Some p \<longrightarrow>
      foldl (login_step ar decode now) s (map Call cs)
        = s\<lparr> holders := holders s @ map (\<lambda>c. (c, p)) cs \<rparr>)
   \<and> (refreshPromise s = None \<longrightarrow>
      network_logins (foldl (login_step ar decode now) s (map Call (c # cs))) = network_logins s + 1
      \<and> refreshPromise (foldl (login_step ar decode now) s (map Call (c # cs)))
          = Some (network_logins s)
      \<and> holders (foldl (login_step ar decode now) s (map Call (c # cs)))
          = holders s @ map (\<lambda>c. (c, network_logins s)) (c # cs))
   \<and> (refreshPromise s = None \<and> ok st \<longrightarrow>
      foldl (login_step ar decode now) s
           (map Call (c # cs) @ [Arrive (Some st)] @ map Call cs' @ [Body (Some d)])
         = s\<lparr> token := js_or (token_field d) (access_token_field d),
              tokenExpiresAt := parseTokenExpiry ar decode now
                                  (js_or (token_field d) (access_token_field d)),
              refreshPromise := None, phase := AwaitJson,
              network_logins := network_logins s + 1,
              holders := holders s @ map (\<lambda>c. (c, network_logins s)) (c # cs @ cs'),
              outcomes := outcomes s
                @ [(network_logins s, Inr (js_or (token_field d) (access_token_field d)))] \<rparr>)
   \<and> (refreshPromise s = None \<and> \<not> ok st \<longrightarrow>
      foldl (login_step ar decode now) s (map Call (c # cs) @ [Arrive (Some st)])
         = s\<lparr> refreshPromise := None, phase := AwaitFetch,
              network_logins := network_logins s + 1,
              holders := holders s @ map (\<lambda>c. (c, network_logins s)) (c # cs),
              outcomes := outcomes s @ [(network_logins s, Inl (LoginFailed st))] \<rparr>)
   \<and> (refreshPromise s = Some p \<and> phase s = AwaitFetch \<and> ok st \<longrightarrow>
      login_step ar decode now s (Arrive (Some st)) = s\<lparr> phase := AwaitJson \<rparr>)
   \<and> (refreshPromise s = Some p \<and> phase s = AwaitJson \<longrightarrow>
      login_step ar decode now s (Body (Some d))
           = s\<lparr> token := js_or (token_field d) (access_token_field d),
                tokenExpiresAt := parseTokenExpiry ar decode now
                                    (js_or (token_field d) (access_token_field d)),
                refreshPromise := None,
                outcomes := outcomes s @ [(p, Inr (js_or (token_field d) (access_token_field d)))] \<rparr>)
   \<and> (refreshPromise s = Some p \<and> phase s = AwaitFetch \<longrightarrow>
      login_step ar decode now s (Arrive None)
        = s\<lparr> refreshPromise := None, outcomes := outcomes s @ [(p, Inl NetworkError)] \<rparr>)
   \<and> (refreshPromise s = Some p \<and> phase s = AwaitFetch \<and> \<not> ok st \<longrightarrow>
      login_step ar decode now s (Arrive (Some st))
        = s\<lparr> refreshPromise := None, outcomes := outcomes s @ [(p, Inl (LoginFailed st))] \<rparr>)
   \<and> (refreshPromise s = Some p \<and> phase s = AwaitJson \<longrightarrow>
      login_step ar decode now s (Body None)
        = s\<lparr> refreshPromise := None, outcomes := outcomes s @ [(p, Inl SyntaxError)] \<rparr>)
   \<and> (refreshPromise s = Some p \<and> \<not> settles s ev \<longrightarrow>
      refreshPromise (login_step ar decode now s ev) = Some p
      \<and> outcomes (login_step ar decode now s ev) = outcomes s
      \<and> token (login_step ar decode now s ev) = token s)
   \<and> (refreshPromise s = None \<longrightarrow>
      refreshPromise (login_step ar decode now s (Call c)) = Some (network_logins s)
      \<and> network_logins (login_step ar decode now s (Call c)) = network_logins s + 1)"
proof -
  have a: "refreshPromise s = Some p \<longrightarrow>
      foldl (login_step ar decode now) s (map Call cs)
        = s\<lparr> holders := holders s @ map (\<lambda>c. (c, p)) cs \<rparr>"
    by (simp add: calls_in_flight)
  have b: "refreshPromise s = None \<longrightarrow>
      network_logins (foldl (login_step ar decode now) s (map Call (c # cs))) = network_logins s + 1
      \<and> refreshPromise (foldl (login_step ar decode now) s (map Call (c # cs)))
          = Some (network_logins s)
      \<and> holders (foldl (login_step ar decode now) s (map Call (c # cs)))
          = holders s @ map (\<lambda>c. (c, network_logins s)) (c # cs)"
  proof
    assume "refreshPromise s = None"
    from calls_from_idle[OF this, of ar decode now c cs]
    show "network_logins (foldl (login_step ar decode now) s (map Call (c # cs))) = network_logins s + 1
      \<and> refreshPromise (foldl (login_step ar decode now) s (map Call (c # cs)))
          = Some (network_logins s)
      \<and> holders (foldl (login_step ar decode now) s (map Call (c # cs)))
          = holders s @ map (\<lambda>c. (c, network_logins s)) (c # cs)"
      by simp
  qed
  have e: "refreshPromise s = None \<longrightarrow>
      refreshPromise (login_step ar decode now s (Call c)) = Some (network_logins s)
      \<and> network_logins (login_step ar decode now s (Call c)) = network_logins s + 1"
    by (simp add: login_step_def)
  show ?thesis
    apply (intro conjI)
    apply (rule a)
    apply (rule b)
    apply (rule impI, erule conjE, erule (1) run_success)
    apply (rule impI, erule conjE, erule (1) run_failure)
    apply (rule impI, (erule conjE)+, erule (2) response_ok)
    apply (rule impI, erule conjE, erule (1) body_parsed)
    apply (rule impI, erule conjE, erule (1) attempt_fails(1))
    apply (rule impI, (erule conjE)+, erule (2) attempt_fails(2))
    apply (rule impI, erule conjE, erule (1) attempt_fails(3))
    apply (rule not_settled)
    apply (rule e)
    done
qed

theorem login_dedup_witness:
  "refreshPromise initial_session = None \<and> ok 200 \<and> \<not> ok 500
   \<and> foldl (login_step exact (\<lambda>t. None) 0) initial_session
       (map Call [1, 2] @ [Arrive (Some 200)] @ map Call [3]
        @ [Body (Some \<lparr> token_field = JStr ''t'', access_token_field = Undefined \<rparr>)])
     = \<lparr> token = JStr ''t'', tokenExpiresAt = Fin 3000000, refreshPromise = None,
         phase = AwaitJson, network_logins = 1, holders = [(1, 0), (2, 0), (3, 0)],
         outcomes = [(0, Inr (JStr ''t''))] \<rparr>
   \<and> foldl (login_step exact (\<lambda>t. None) 0) initial_session (map Call [1, 2] @ [Arrive (Some 500)])
     = \<lparr> token = Null, tokenExpiresAt = Fin 0, refreshPromise = None,
         phase = AwaitFetch, network_logins = 1, holders = [(1, 0), (2, 0)],
         outcomes = [(0, Inl (LoginFailed 500))] \<rparr>
   \<and> refreshPromise (login_step exact (\<lambda>t. None) 0
        (foldl (login_step exact (\<lambda>t. None) 0) initial_session (map Call [1, 2] @ [Arrive (Some 500)]))
        (Call 3)) = Some 1
   \<and> network_logins (login_step exact (\<lambda>t. None) 0
        (foldl (login_step exact (\<lambda>t. None) 0) initial_session (map Call [1, 2] @ [Arrive (Some 500)]))
        (Call 3)) = 2"
proof -
  let ?st = "login_step exact (\<lambda>t. None) 0"
  let ?d = "\<lparr> token_field = JStr ''t'', access_token_field = Undefined \<rparr>"
  have n: "refreshPromise initial_session = None"
    by (simp add: initial_session_def)
  have o: "ok 200" "\<not> ok 500" by (simp_all add: ok_def)
  note w1 = login_dedup[where s = initial_session and c = 1 and cs = "[2]" and cs' = "[3]"
                and ar = exact and decode = "\<lambda>t. None" and now = 0 and st = 200 and d = ?d]
  note w2 = login_dedup[where s = initial_session and c = 1 and cs = "[2]"
                and ar = exact and decode = "\<lambda>t. None" and now = 0 and st = 500]
  have a: "foldl ?st initial_session
       (map Call [1, 2] @ [Arrive (Some 200)] @ map Call [3] @ [Body (Some ?d)])
     = \<lparr> token = JStr ''t'', tokenExpiresAt = Fin 3000000, refreshPromise = None,
         phase = AwaitJson, network_logins = 1, holders = [(1, 0), (2, 0), (3, 0)],
         outcomes = [(0, Inr (JStr ''t''))] \<rparr>"
    using w1[THEN conjunct2, THEN conjunct2, THEN conjunct1] n o(1)
    by (simp add: initial_session_def js_or_def parseTokenExpiry_def)
  have b: "foldl ?st initial_session (map Call [1, 2] @ [Arrive (Some 500)])
     = \<lparr> token = Null, tokenExpiresAt = Fin 0, refreshPromise = None,
         phase = AwaitFetch, network_logins = 1, holders = [(1, 0), (2, 0)],
         outcomes = [(0, Inl (LoginFailed 500))] \<rparr>"
    using w2[THEN conjunct2, THEN conjunct2, THEN conjunct2, THEN conjunct1] n o(2)
    by (simp add: initial_session_def)
  let ?f = "foldl ?st initial_session (map Call [1, 2] @ [Arrive (Some 500)])"
  have nf: "refreshPromise ?f = None" "network_logins ?f = 1" by (simp_all only: b session.simps credential.simps)
  note w3 = login_dedup[where s = ?f and c = 3 and ar = exact and decode = "\<lambda>t. None" and now = 0]
  have c: "refreshPromise (?st ?f (Call 3)) = Some 1" "network_logins (?st ?f (Call 3)) = 2"
    using w3[THEN conjunct2, THEN conjunct2, THEN conjunct2, THEN conjunct2, THEN conjunct2,
             THEN conjunct2, THEN conjunct2, THEN conjunct2, THEN conjunct2, THEN conjunct2] nf
    by simp_all
  show ?thesis using n o a b c by (intro conjI)
qed

end
